theory Spec2Isabelle
  imports Main
begin

section \<open>Python values, documents and exceptions\<close>

text \<open>
  A user record is a Python \<^verbatim>\<open>Dict[str, Any]\<close>. The field values the facade looks at
  are the scalars; \<open>POther r t\<close> stands for any other object (an ObjectId, a nested
  list or dict, ...) with its \<^verbatim>\<open>str()\<close> rendering \<open>r\<close> and its truth value \<open>t\<close>.
\<close>

datatype pyval = PNone | PBool bool | PInt int | PStr string | POther string bool

type_synonym doc = "string \<rightharpoonup> pyval"

text \<open>Python truthiness, as \<^verbatim>\<open>not user_data['_id']\<close> reads it.\<close>

fun truthy :: "pyval \<Rightarrow> bool" where
  "truthy PNone = False"
| "truthy (PBool b) = b"
| "truthy (PInt i) = (i \<noteq> 0)"
| "truthy (PStr s) = (s \<noteq> [])"
| "truthy (POther r t) = t"

text \<open>Decimal rendering of integers, as an f-string prints them.\<close>

definition digit :: "nat \<Rightarrow> char" where
  "digit d = ''0123456789'' ! d"

fun show_nat :: "nat \<Rightarrow> string" where
  "show_nat n =
     (if n < 10 then [digit n] else show_nat (n div 10) @ [digit (n mod 10)])"

declare show_nat.simps [simp del]

definition show_int :: "int \<Rightarrow> string" where
  "show_int i = (if i < 0 then CHR ''-'' # show_nat (nat (- i)) else show_nat (nat i))"

fun py_str :: "pyval \<Rightarrow> string" where
  "py_str PNone = ''None''"
| "py_str (PBool b) = (if b then ''True'' else ''False'')"
| "py_str (PInt i) = show_int i"
| "py_str (PStr s) = s"
| "py_str (POther r t) = r"

text \<open>
  Exceptions are values. \<open>ValueError\<close> is what the facade itself raises,
  \<open>AttributeError\<close> is a method call on \<^verbatim>\<open>None\<close>, and \<open>BackendError\<close> is any
  exception raised inside a driver call, with its \<^verbatim>\<open>str()\<close> text.
\<close>

datatype exn = ValueError string | AttributeError string | BackendError string

fun exn_str :: "exn \<Rightarrow> string" where
  "exn_str (ValueError m) = m"
| "exn_str (AttributeError m) = m"
| "exn_str (BackendError m) = m"

text \<open>
  A cursor yields its documents in order and then either stops or raises
  (a network failure in the middle of the scan).
\<close>

datatype cursor = Cursor "doc list" "exn option"

text \<open>The values of the dictionary that the migration routine returns.\<close>

datatype rval = RBool bool | RStr string | RInt int | RList "string list"

type_synonym report = "string \<rightharpoonup> rval"

section \<open>The client libraries\<close>

text \<open>
  pymongo and astrapy are not part of the repository. Every call the facade makes into
  them is a field of the record \<open>sdk\<close>: a function on the state \<open>'w\<close> of the outside
  world (the databases and the network) that returns an exception or a value, and the
  new state. \<open>'d\<close> are database handles and \<open>'h\<close> collection handles.
\<close>

record ('w, 'd, 'h) sdk =
  mongo_users :: "string \<Rightarrow> string \<Rightarrow> 'w \<Rightarrow> (exn + 'h) \<times> 'w"
  astra_users :: "string \<Rightarrow> string \<Rightarrow> string \<Rightarrow> string \<Rightarrow> 'w \<Rightarrow> (exn + 'h) \<times> 'w"
  get_database :: "string \<Rightarrow> string \<Rightarrow> string \<Rightarrow> 'w \<Rightarrow> (exn + 'd) \<times> 'w"
  create_keyspace :: "'d \<Rightarrow> string \<Rightarrow> 'w \<Rightarrow> (exn + 'd) \<times> 'w"
  create_collection :: "'d \<Rightarrow> 'w \<Rightarrow> (exn + 'h) \<times> 'w"
  get_collection :: "'d \<Rightarrow> 'w \<Rightarrow> (exn + 'h) \<times> 'w"
  insert_one :: "'h \<Rightarrow> doc \<Rightarrow> 'w \<Rightarrow> (exn + unit) \<times> 'w"
  insert_many :: "'h \<Rightarrow> doc list \<Rightarrow> 'w \<Rightarrow> (exn + unit) \<times> 'w"
  find_all :: "'h \<Rightarrow> 'w \<Rightarrow> (exn + cursor) \<times> 'w"
  find_one :: "'h \<Rightarrow> string \<Rightarrow> 'w \<Rightarrow> (exn + doc option) \<times> 'w"
  delete_one :: "'h \<Rightarrow> string \<Rightarrow> 'w \<Rightarrow> (exn + nat) \<times> 'w"

text \<open>
  \<^item> \<open>mongo_users uri name\<close> is \<^verbatim>\<open>MongoClient(uri)[name].users\<close>;
  \<^item> \<open>astra_users id region token keyspace\<close> is
    \<^verbatim>\<open>AstraDB(id, region, token, namespace=keyspace).collection("users")\<close>;
  \<^item> \<open>get_database endpoint username password\<close> is
    \<^verbatim>\<open>DataAPIClient(environment=Environment.HCD).get_database(endpoint, token=...)\<close>
    with the token provider built from the user name and password;
  \<^item> \<open>create_keyspace db keyspace\<close> is
    \<^verbatim>\<open>db.get_database_admin().create_keyspace(keyspace, update_db_keyspace=True)\<close>,
    which returns the database now working in that keyspace;
  \<^item> \<open>create_collection db\<close> and \<open>get_collection db\<close> are the calls for \<^verbatim>\<open>"users"\<close>;
  \<^item> \<open>find_all c\<close> is \<^verbatim>\<open>c.find({})\<close>, \<open>find_one c k\<close> is \<^verbatim>\<open>c.find_one({"_id": k})\<close>, and
    \<open>delete_one c k\<close> is \<^verbatim>\<open>c.delete_one({"_id": k}).deleted_count\<close>.
\<close>

section \<open>The facade\<close>

type_synonym environ = "string \<rightharpoonup> string"

definition getenv :: "environ \<Rightarrow> string \<Rightarrow> string \<Rightarrow> string" where
  "getenv env k dflt = (case env k of None \<Rightarrow> dflt | Some v \<Rightarrow> v)"

text \<open>\<^verbatim>\<open>all([a, b, c])\<close> on values of \<^verbatim>\<open>os.getenv\<close>: each is set and not empty.\<close>

definition env_set :: "string option \<Rightarrow> bool" where
  "env_set v = (case v of None \<Rightarrow> False | Some s \<Rightarrow> s \<noteq> [])"

record 'h manager =
  db_type :: string
  collection :: "'h option"

definition setup_astra ::
  "('w, 'd, 'h) sdk \<Rightarrow> environ \<Rightarrow> 'h manager \<Rightarrow> 'w \<Rightarrow> (exn + 'h manager) \<times> 'w" where
  "setup_astra sdk env self w =
     (let astra_db_id = env ''ASTRA_DB_ID'';
          astra_region = env ''ASTRA_DB_REGION'';
          astra_token = env ''ASTRA_DB_TOKEN'';
          astra_keyspace = getenv env ''ASTRA_DB_KEYSPACE'' ''default_keyspace''
      in if \<not> (env_set astra_db_id \<and> env_set astra_region \<and> env_set astra_token)
         then (Inl (ValueError
           ''Astra DB configuration incomplete. Check ASTRA_DB_ID, ASTRA_DB_REGION, and ASTRA_DB_TOKEN''), w)
         else (case astra_users sdk (the astra_db_id) (the astra_region) (the astra_token)
                      astra_keyspace w of
                 (Inl e, w1) \<Rightarrow> (Inl e, w1)
               | (Inr c, w1) \<Rightarrow> (Inr (self\<lparr>collection := Some c\<rparr>), w1)))"

definition setup_mongodb ::
  "('w, 'd, 'h) sdk \<Rightarrow> environ \<Rightarrow> 'h manager \<Rightarrow> 'w \<Rightarrow> (exn + 'h manager) \<times> 'w" where
  "setup_mongodb sdk env self w =
     (let uri = getenv env ''MONGODB_URI'' ''mongodb://localhost:27017/'';
          database_name = getenv env ''MONGODB_DATABASE'' ''user_profiles''
      in case mongo_users sdk uri database_name w of
           (Inl e, w1) \<Rightarrow> (Inl e, w1)
         | (Inr c, w1) \<Rightarrow> (Inr (self\<lparr>collection := Some c\<rparr>), w1))"

definition setup_hcd ::
  "('w, 'd, 'h) sdk \<Rightarrow> environ \<Rightarrow> 'h manager \<Rightarrow> 'w \<Rightarrow> (exn + 'h manager) \<times> 'w" where
  "setup_hcd sdk env self w =
     (let api_endpoint = env ''HCD_API_ENDPOINT'';
          username = env ''HCD_USERNAME'';
          password = env ''HCD_PASSWORD'';
          keyspace = getenv env ''HCD_KEYSPACE'' ''default_keyspace''
      in if \<not> (env_set api_endpoint \<and> env_set username \<and> env_set password)
         then (Inl (ValueError
           ''HCD configuration incomplete. Check HCD_API_ENDPOINT, HCD_USERNAME, and HCD_PASSWORD''), w)
         else (case get_database sdk (the api_endpoint) (the username) (the password) w of
                 (Inl e, w1) \<Rightarrow> (Inl e, w1)
               | (Inr database, w1) \<Rightarrow>
                   (case (case create_keyspace sdk database keyspace w1 of
                            (Inl e, w2) \<Rightarrow> (database, w2)
                          | (Inr database', w2) \<Rightarrow> (database', w2)) of
                      (database, w2) \<Rightarrow>
                        (case create_collection sdk database w2 of
                           (Inr c, w3) \<Rightarrow> (Inr (self\<lparr>collection := Some c\<rparr>), w3)
                         | (Inl e, w3) \<Rightarrow>
                             (case get_collection sdk database w3 of
                                (Inl e', w4) \<Rightarrow> (Inl e', w4)
                              | (Inr c, w4) \<Rightarrow> (Inr (self\<lparr>collection := Some c\<rparr>), w4))))))"

definition setup_connection ::
  "('w, 'd, 'h) sdk \<Rightarrow> environ \<Rightarrow> 'h manager \<Rightarrow> 'w \<Rightarrow> (exn + 'h manager) \<times> 'w" where
  "setup_connection sdk env self w =
     (if db_type self = ''mongodb'' then setup_mongodb sdk env self w
      else if db_type self = ''hcd'' then setup_hcd sdk env self w
      else if db_type self = ''astra'' then setup_astra sdk env self w
      else (Inl (ValueError (''Unsupported database type: '' @ db_type self)), w))"

text \<open>The constructor \<^verbatim>\<open>DatabaseManager()\<close>, that is \<^verbatim>\<open>__init__\<close>.\<close>

definition DatabaseManager ::
  "('w, 'd, 'h) sdk \<Rightarrow> environ \<Rightarrow> 'w \<Rightarrow> (exn + 'h manager) \<times> 'w" where
  "DatabaseManager sdk env w =
     setup_connection sdk env
       \<lparr>db_type = getenv env ''DATABASE_TYPE'' ''mongodb'', collection = None\<rparr> w"

text \<open>
  A method call on \<^verbatim>\<open>self.collection\<close>: on \<^verbatim>\<open>None\<close> Python raises AttributeError
  before anything reaches a driver. \<open>CHR 0x27\<close> is the single quote of its message.
\<close>

definition on_collection ::
  "'h manager \<Rightarrow> string \<Rightarrow> ('h \<Rightarrow> 'w \<Rightarrow> (exn + 'a) \<times> 'w) \<Rightarrow> 'w \<Rightarrow> (exn + 'a) \<times> 'w" where
  "on_collection self meth f w =
     (case collection self of
        None \<Rightarrow>
          (Inl (AttributeError
             (CHR 0x27 # ''NoneType'' @ CHR 0x27 # '' object has no attribute ''
                @ CHR 0x27 # meth @ [CHR 0x27])), w)
      | Some c \<Rightarrow> f c w)"

text \<open>
  \<^verbatim>\<open>create_user\<close>. The argument \<open>uuid4\<close> is the string \<^verbatim>\<open>str(uuid.uuid4())\<close> that the
  call would draw: the random draw is an input of the model.
\<close>

definition create_user ::
  "('w, 'd, 'h) sdk \<Rightarrow> string \<Rightarrow> 'h manager \<Rightarrow> doc \<Rightarrow> 'w \<Rightarrow> (exn + doc) \<times> 'w" where
  "create_user sdk uuid4 self user_data w =
     (let user_data =
            (if (case user_data ''_id'' of None \<Rightarrow> True | Some v \<Rightarrow> \<not> truthy v)
             then user_data(''_id'' \<mapsto> PStr uuid4) else user_data)
      in case on_collection self ''insert_one'' (\<lambda>c. insert_one sdk c user_data) w of
           (Inl e, w1) \<Rightarrow> (Inl e, w1)
         | (Inr result, w1) \<Rightarrow> (Inr user_data, w1))"

definition get_all_users ::
  "('w, 'd, 'h) sdk \<Rightarrow> 'h manager \<Rightarrow> 'w \<Rightarrow> (exn + doc list) \<times> 'w" where
  "get_all_users sdk self w =
     (case on_collection self ''find'' (find_all sdk) w of
        (Inl e, w1) \<Rightarrow> (Inl e, w1)
      | (Inr (Cursor docs None), w1) \<Rightarrow> (Inr docs, w1)
      | (Inr (Cursor docs (Some e)), w1) \<Rightarrow> (Inl e, w1))"

definition get_user_by_id ::
  "('w, 'd, 'h) sdk \<Rightarrow> 'h manager \<Rightarrow> string \<Rightarrow> 'w \<Rightarrow> (exn + doc option) \<times> 'w" where
  "get_user_by_id sdk self user_id w =
     on_collection self ''find_one'' (\<lambda>c. find_one sdk c user_id) w"

definition delete_user ::
  "('w, 'd, 'h) sdk \<Rightarrow> 'h manager \<Rightarrow> string \<Rightarrow> 'w \<Rightarrow> (exn + bool) \<times> 'w" where
  "delete_user sdk self user_id w =
     (case on_collection self ''delete_one'' (\<lambda>c. delete_one sdk c user_id) w of
        (Inl e, w1) \<Rightarrow> (Inl e, w1)
      | (Inr deleted_count, w1) \<Rightarrow> (Inr (deleted_count > 0), w1))"

definition get_database_info :: "'h manager \<Rightarrow> string \<rightharpoonup> string" where
  "get_database_info self = [''type'' \<mapsto> db_type self, ''status'' \<mapsto> ''connected'']"

section \<open>Migration\<close>

definition batch_size :: nat where
  "batch_size = 100"

text \<open>The local variables of \<^verbatim>\<open>sync_mongodb_to_hcd\<close> that the loop updates.\<close>

record loop_state =
  total_synced :: nat
  errors :: "string list"
  batch :: "doc list"

text \<open>\<^verbatim>\<open>f"User {b_user.get('_id', 'unknown')}: {str(e)}"\<close>\<close>

definition error_entry :: "exn \<Rightarrow> doc \<Rightarrow> string" where
  "error_entry e b_user =
     ''User '' @ (case b_user ''_id'' of None \<Rightarrow> ''unknown'' | Some v \<Rightarrow> py_str v)
       @ '': '' @ exn_str e"

text \<open>
  The \<^verbatim>\<open>try: insert_many(batch) ... except Exception\<close> block, which stands twice in the
  source (lines 132-137 and 142-147). Whatever is raised inside it, a missing
  collection included, lands in the handler.
\<close>

definition insert_batch ::
  "('w, 'd, 'h) sdk \<Rightarrow> 'h manager \<Rightarrow> loop_state \<Rightarrow> 'w \<Rightarrow> loop_state \<times> 'w" where
  "insert_batch sdk hcd_manager st w =
     (case on_collection hcd_manager ''insert_many'' (\<lambda>c. insert_many sdk c (batch st)) w of
        (Inr result, w1) \<Rightarrow>
          (st\<lparr>total_synced := total_synced st + length (batch st)\<rparr>, w1)
      | (Inl e, w1) \<Rightarrow>
          (st\<lparr>errors := errors st @ map (error_entry e) (batch st)\<rparr>, w1))"

text \<open>The body of \<^verbatim>\<open>for user in cursor\<close>, over the documents the cursor yields.\<close>

fun sync_loop ::
  "('w, 'd, 'h) sdk \<Rightarrow> 'h manager \<Rightarrow> doc list \<Rightarrow> loop_state \<Rightarrow> 'w \<Rightarrow> loop_state \<times> 'w" where
  "sync_loop sdk hcd_manager [] st w = (st, w)"
| "sync_loop sdk hcd_manager (user # rest) st w =
     (let st1 = st\<lparr>batch := batch st @ [user]\<rparr>
      in if length (batch st1) = batch_size
         then (case insert_batch sdk hcd_manager st1 w of
                 (st2, w2) \<Rightarrow> sync_loop sdk hcd_manager rest (st2\<lparr>batch := []\<rparr>) w2)
         else sync_loop sdk hcd_manager rest st1 w)"

text \<open>
  Lines 129-147: the loop, then the last partial batch (\<^verbatim>\<open>if batch:\<close>, lines 141-147). A
  cursor that raises ends the loop with that exception, and the partial batch is not
  flushed.
\<close>

definition flush_last ::
  "('w, 'd, 'h) sdk \<Rightarrow> 'h manager \<Rightarrow> loop_state \<Rightarrow> 'w \<Rightarrow> loop_state \<times> 'w" where
  "flush_last sdk hcd_manager st w =
     (if batch st \<noteq> [] then insert_batch sdk hcd_manager st w else (st, w))"

definition sync_batches ::
  "('w, 'd, 'h) sdk \<Rightarrow> 'h manager \<Rightarrow> cursor \<Rightarrow> 'w \<Rightarrow> (exn + loop_state) \<times> 'w" where
  "sync_batches sdk hcd_manager cur w =
     (case cur of Cursor docs failure \<Rightarrow>
        (case sync_loop sdk hcd_manager docs
                \<lparr>total_synced = 0, errors = [], batch = []\<rparr> w of
           (st, w1) \<Rightarrow>
             (case failure of
                Some e \<Rightarrow> (Inl e, w1)
              | None \<Rightarrow>
                  (case flush_last sdk hcd_manager st w1 of (st2, w2) \<Rightarrow> (Inr st2, w2)))))"

text \<open>Lines 117-147: the body of the outer \<^verbatim>\<open>try\<close> up to the end of the transfer.\<close>

definition sync_try ::
  "('w, 'd, 'h) sdk \<Rightarrow> environ \<Rightarrow> 'h manager \<Rightarrow> 'w \<Rightarrow> (exn + loop_state) \<times> 'w" where
  "sync_try sdk env self w =
     (case on_collection self ''find'' (find_all sdk) w of
        (Inl e, w1) \<Rightarrow> (Inl e, w1)
      | (Inr cur, w1) \<Rightarrow>
          (case DatabaseManager sdk env w1 of
             (Inl e, w2) \<Rightarrow> (Inl e, w2)
           | (Inr hcd_manager, w2) \<Rightarrow>
               (case setup_hcd sdk env (hcd_manager\<lparr>db_type := ''hcd''\<rparr>) w2 of
                  (Inl e, w3) \<Rightarrow> (Inl e, w3)
                | (Inr hcd_manager, w3) \<Rightarrow> sync_batches sdk hcd_manager cur w3)))"

text \<open>Lines 149-158: the message and the dictionary of a run that came through.\<close>

definition sync_report :: "loop_state \<Rightarrow> report" where
  "sync_report st =
     (let message = ''Successfully synced '' @ show_nat (total_synced st)
                      @ '' users to DataStax HCD'';
          message = (if errors st \<noteq> []
                     then message @ ''. '' @ show_nat (length (errors st))
                            @ '' users skipped (likely duplicates)''
                     else message)
      in [''success'' \<mapsto> RBool True,
          ''message'' \<mapsto> RStr message,
          ''synced_count'' \<mapsto> RInt (int (total_synced st)),
          ''errors'' \<mapsto> RList (take 5 (errors st))])"

definition sync_mongodb_to_hcd ::
  "('w, 'd, 'h) sdk \<Rightarrow> environ \<Rightarrow> 'h manager \<Rightarrow> 'w \<Rightarrow> (exn + report) \<times> 'w" where
  "sync_mongodb_to_hcd sdk env self w =
     (if db_type self \<noteq> ''mongodb''
      then (Inr [''success'' \<mapsto> RBool False,
                 ''message'' \<mapsto> RStr ''Sync only available from MongoDB''], w)
      else (case sync_try sdk env self w of
              (Inr st, w1) \<Rightarrow> (Inr (sync_report st), w1)
            | (Inl e, w1) \<Rightarrow>
                (Inr [''success'' \<mapsto> RBool False,
                      ''message'' \<mapsto> RStr (''Sync failed: '' @ exn_str e)], w1)))"

section \<open>A reference backend\<close>

text \<open>
  What the claims say about stored records needs a backend to store them. This one keeps
  the three \<^verbatim>\<open>users\<close> collections as lists of documents in insertion order, with the
  unique index on \<^verbatim>\<open>_id\<close> that both kinds of service enforce, and a log of every
  driver call. A bulk insert is ordered: it stops at the first duplicate key and keeps
  what it wrote before. A document without \<^verbatim>\<open>_id\<close> is indexed under its missing key (the
  drivers would generate one; the facade never inserts such a document).
\<close>

datatype store = MongoStore | HcdStore | AstraStore

datatype call =
    CallMongoUsers string string
  | CallAstraUsers string string string string
  | CallGetDatabase string string string
  | CallCreateKeyspace string
  | CallCreateCollection
  | CallGetCollection
  | CallInsertOne store doc
  | CallInsertMany store "doc list"
  | CallFind store
  | CallFindOne store string
  | CallDeleteOne store string

record mem =
  users :: "store \<Rightarrow> doc list"
  calls :: "call list"

definition doc_key :: "doc \<Rightarrow> pyval option" where
  "doc_key d = d ''_id''"

definition logged :: "call \<Rightarrow> mem \<Rightarrow> mem" where
  "logged c w = w\<lparr>calls := calls w @ [c]\<rparr>"

definition put_users :: "store \<Rightarrow> doc list \<Rightarrow> mem \<Rightarrow> mem" where
  "put_users s ds w = w\<lparr>users := (users w)(s := ds)\<rparr>"

fun insert_docs :: "doc list \<Rightarrow> doc list \<Rightarrow> exn option \<times> doc list" where
  "insert_docs [] coll = (None, coll)"
| "insert_docs (d # ds) coll =
     (if doc_key d \<in> set (map doc_key coll)
      then (Some (BackendError ''duplicate key error''), coll)
      else insert_docs ds (coll @ [d]))"

fun delete_first :: "pyval option \<Rightarrow> doc list \<Rightarrow> doc list" where
  "delete_first k [] = []"
| "delete_first k (d # ds) = (if doc_key d = k then ds else d # delete_first k ds)"

definition mem_insert_many :: "store \<Rightarrow> doc list \<Rightarrow> mem \<Rightarrow> (exn + unit) \<times> mem" where
  "mem_insert_many s ds w =
     (case insert_docs ds (users w s) of
        (None, coll) \<Rightarrow> (Inr (), put_users s coll (logged (CallInsertMany s ds) w))
      | (Some e, coll) \<Rightarrow> (Inl e, put_users s coll (logged (CallInsertMany s ds) w)))"

definition mem_insert_one :: "store \<Rightarrow> doc \<Rightarrow> mem \<Rightarrow> (exn + unit) \<times> mem" where
  "mem_insert_one s d w =
     (case insert_docs [d] (users w s) of
        (None, coll) \<Rightarrow> (Inr (), put_users s coll (logged (CallInsertOne s d) w))
      | (Some e, coll) \<Rightarrow> (Inl e, put_users s coll (logged (CallInsertOne s d) w)))"

definition mem_find_all :: "store \<Rightarrow> mem \<Rightarrow> (exn + cursor) \<times> mem" where
  "mem_find_all s w = (Inr (Cursor (users w s) None), logged (CallFind s) w)"

definition mem_find_one :: "store \<Rightarrow> string \<Rightarrow> mem \<Rightarrow> (exn + doc option) \<times> mem" where
  "mem_find_one s k w =
     (Inr (List.find (\<lambda>d. doc_key d = Some (PStr k)) (users w s)), logged (CallFindOne s k) w)"

definition mem_delete_one :: "store \<Rightarrow> string \<Rightarrow> mem \<Rightarrow> (exn + nat) \<times> mem" where
  "mem_delete_one s k w =
     (let coll = delete_first (Some (PStr k)) (users w s)
      in (Inr (length (users w s) - length coll),
          put_users s coll (logged (CallDeleteOne s k) w)))"

definition mem_sdk :: "(mem, string, store) sdk" where
  "mem_sdk =
     \<lparr>mongo_users = (\<lambda>uri name w. (Inr MongoStore, logged (CallMongoUsers uri name) w)),
      astra_users = (\<lambda>i r t k w. (Inr AstraStore, logged (CallAstraUsers i r t k) w)),
      get_database = (\<lambda>e u p w. (Inr ''default_keyspace'', logged (CallGetDatabase e u p) w)),
      create_keyspace = (\<lambda>db k w. (Inr k, logged (CallCreateKeyspace k) w)),
      create_collection = (\<lambda>db w. (Inr HcdStore, logged CallCreateCollection w)),
      get_collection = (\<lambda>db w. (Inr HcdStore, logged CallGetCollection w)),
      insert_one = mem_insert_one,
      insert_many = mem_insert_many,
      find_all = mem_find_all,
      find_one = mem_find_one,
      delete_one = mem_delete_one\<rparr>"

definition mem_empty :: mem where
  "mem_empty = \<lparr>users = (\<lambda>s. []), calls = []\<rparr>"

section \<open>The transfer as the specification tells it\<close>

text \<open>
  The specification describes the transfer by its batches: the records are cut into
  consecutive groups of the batch size, the last one shorter, and each group is one
  bulk insert that succeeds or fails as a whole. These definitions follow that
  description; the theorems below compare them with the loop of the source.
\<close>

function chunks :: "nat \<Rightarrow> 'a list \<Rightarrow> 'a list list" where
  "chunks n xs = (if n = 0 \<or> xs = [] then [] else take n xs # chunks n (drop n xs))"
  by pat_completeness auto
termination
  by (relation "measure (\<lambda>(n, xs). length xs)") auto

declare chunks.simps [simp del]

text \<open>One bulk insert per group, in order; each group is paired with what it raised.\<close>

fun bulk_inserts ::
  "('w, 'd, 'h) sdk \<Rightarrow> 'h manager \<Rightarrow> doc list list \<Rightarrow> 'w
     \<Rightarrow> (doc list \<times> exn option) list \<times> 'w" where
  "bulk_inserts sdk hcd_manager [] w = ([], w)"
| "bulk_inserts sdk hcd_manager (b # bs) w =
     (case on_collection hcd_manager ''insert_many'' (\<lambda>c. insert_many sdk c b) w of
        (r, w1) \<Rightarrow>
          (case bulk_inserts sdk hcd_manager bs w1 of
             (rs, w2) \<Rightarrow> ((b, case r of Inl e \<Rightarrow> Some e | Inr u \<Rightarrow> None) # rs, w2)))"

text \<open>The records of the groups that went through, counted.\<close>

fun synced_of :: "(doc list \<times> exn option) list \<Rightarrow> nat" where
  "synced_of [] = 0"
| "synced_of ((b, None) # rs) = length b + synced_of rs"
| "synced_of ((b, Some e) # rs) = synced_of rs"

text \<open>
  One entry for every record of every group that failed: the word \<^verbatim>\<open>User\<close>, the key of
  the record (\<^verbatim>\<open>unknown\<close> for a record without one), a colon and the text of what the
  bulk insert raised.
\<close>

fun errors_of :: "(doc list \<times> exn option) list \<Rightarrow> string list" where
  "errors_of [] = []"
| "errors_of ((b, None) # rs) = errors_of rs"
| "errors_of ((b, Some e) # rs) =
     map (\<lambda>d. ''User '' @ (case d ''_id'' of None \<Rightarrow> ''unknown'' | Some k \<Rightarrow> py_str k)
                 @ '': '' @ exn_str e) b
       @ errors_of rs"

section \<open>Decimal strings read back\<close>

text \<open>The number a string of decimal digits stands for: the inverse of \<open>show_nat\<close>.\<close>

definition read_nat :: "string \<Rightarrow> nat" where
  "read_nat s = foldl (\<lambda>a c. 10 * a + (of_char c - 48)) 0 s"

section \<open>Example data\<close>

text \<open>
  A configuration with the three HCD settings, a facade bound to the document store, a
  world where the document store holds six users of which the third is already in HCD,
  and a world with 250 users and an empty HCD.
\<close>

definition example_env :: environ where
  "example_env =
     [''HCD_API_ENDPOINT'' \<mapsto> ''http://localhost:8181'',
      ''HCD_USERNAME'' \<mapsto> ''cassandra'',
      ''HCD_PASSWORD'' \<mapsto> ''cassandra'']"

definition user_doc :: "string \<Rightarrow> doc" where
  "user_doc k = [''_id'' \<mapsto> PStr k]"

definition mongo_facade :: "store manager" where
  "mongo_facade = \<lparr>db_type = ''mongodb'', collection = Some MongoStore\<rparr>"

definition six_docs :: "doc list" where
  "six_docs = map user_doc [''u1'', ''u2'', ''u3'', ''u4'', ''u5'', ''u6'']"

definition six_users :: mem where
  "six_users =
     \<lparr>users = (\<lambda>s. [])(MongoStore := six_docs, HcdStore := [user_doc ''u3'']),
      calls = []\<rparr>"

definition many_users :: mem where
  "many_users =
     \<lparr>users = (\<lambda>s. [])(MongoStore := map (\<lambda>i. user_doc (show_nat i)) [0..<250]),
      calls = []\<rparr>"

text \<open>
  The example of the specification: 250 users with the keys 1 to 250, of which the
  150th is already in HCD.
\<close>

definition numbered_docs :: "nat \<Rightarrow> nat \<Rightarrow> doc list" where
  "numbered_docs a b = map (\<lambda>i. user_doc (show_nat i)) [a..<b]"

definition clash_users :: mem where
  "clash_users =
     \<lparr>users = (\<lambda>s. [])(MongoStore := numbered_docs 1 251, HcdStore := [user_doc ''150'']),
      calls = []\<rparr>"

text \<open>Two HCD configurations, each with one of the three settings missing.\<close>

definition env_without_password :: environ where
  "env_without_password =
     [''DATABASE_TYPE'' \<mapsto> ''hcd'',
      ''HCD_API_ENDPOINT'' \<mapsto> ''http://localhost:8181'',
      ''HCD_USERNAME'' \<mapsto> ''cassandra'']"

definition env_without_endpoint :: environ where
  "env_without_endpoint =
     [''DATABASE_TYPE'' \<mapsto> ''hcd'',
      ''HCD_USERNAME'' \<mapsto> ''cassandra'',
      ''HCD_PASSWORD'' \<mapsto> ''cassandra'']"

section \<open>Lemmas\<close>

lemma of_char_digit: "d < 10 \<Longrightarrow> of_char (digit d) - 48 = d"
proof -
  assume "d < 10"
  then have "d \<in> {0, 1, 2, 3, 4, 5, 6, 7, 8, 9}" by auto
  then show ?thesis by (auto simp: digit_def)
qed

lemma read_show_nat: "read_nat (show_nat n) = n"
proof (induction n rule: show_nat.induct)
  case (1 n)
  show ?case
  proof (cases "n < 10")
    case True
    then show ?thesis by (subst show_nat.simps) (simp add: read_nat_def of_char_digit)
  next
    case False
    with 1 have "read_nat (show_nat (n div 10)) = n div 10" by simp
    with False show ?thesis
      by (subst show_nat.simps) (simp add: read_nat_def of_char_digit)
  qed
qed

lemma inj_show_nat: "inj show_nat"
  by (rule inj_on_inverseI [of _ read_nat]) (rule read_show_nat)

lemma chunks_Nil [simp]: "chunks n [] = []"
  by (simp add: chunks.simps)

lemma chunks_short: "xs \<noteq> [] \<Longrightarrow> length xs \<le> n \<Longrightarrow> chunks n xs = [xs]"
  by (subst chunks.simps) (cases xs; auto)

lemma chunks_full: "0 < n \<Longrightarrow> length b = n \<Longrightarrow> chunks n (b @ xs) = b # chunks n xs"
  by (subst chunks.simps) auto

lemma concat_chunks: "0 < n \<Longrightarrow> concat (chunks n xs) = xs"
proof (induction n xs rule: chunks.induct)
  case (1 n xs)
  show ?case
  proof (cases "xs = []")
    case True
    then show ?thesis by simp
  next
    case False
    with 1 have "concat (chunks n (drop n xs)) = drop n xs" by simp
    with False 1(2) show ?thesis
      by (subst chunks.simps) simp
  qed
qed

lemma length_chunks:
  "0 < n \<Longrightarrow> map length (chunks n xs) =
     replicate (length xs div n) n @ (if length xs mod n = 0 then [] else [length xs mod n])"
proof (induction n xs rule: chunks.induct)
  case (1 n xs)
  show ?case
  proof (cases "xs = []")
    case True
    then show ?thesis by simp
  next
    case False
    note ne = this
    with 1 have IH: "map length (chunks n (drop n xs)) =
       replicate (length (drop n xs) div n) n
         @ (if length (drop n xs) mod n = 0 then [] else [length (drop n xs) mod n])"
      by simp
    show ?thesis
    proof (cases "length xs < n")
      case True
      with ne have "chunks n xs = [xs]" by (simp add: chunks_short)
      with True ne show ?thesis by simp
    next
      case False
      then have ge: "n \<le> length xs" by simp
      then have d: "length xs div n = Suc ((length xs - n) div n)"
        using 1(2) by (simp add: le_div_geq)
      have m: "length xs mod n = (length xs - n) mod n"
        using ge by (simp add: le_mod_geq)
      have "chunks n xs = take n xs # chunks n (drop n xs)"
        using ne 1(2) by (subst chunks.simps) simp
      with IH ge d m show ?thesis by simp
    qed
  qed
qed

lemma insert_batch_bulk:
  "insert_batch sdk m st w = (st', w') \<Longrightarrow>
   bulk_inserts sdk m (batch st # bs) w = (rs, w'') \<Longrightarrow>
   \<exists>r rs'. rs = (batch st, r) # rs' \<and> bulk_inserts sdk m bs w' = (rs', w'') \<and>
     batch st' = batch st \<and>
     total_synced st' = total_synced st + synced_of [(batch st, r)] \<and>
     errors st' = errors st @ errors_of [(batch st, r)]"
  by (auto simp: insert_batch_def error_entry_def split: prod.splits sum.splits)

lemma flush_sync_loop:
  "length (batch st) < batch_size \<Longrightarrow>
   flush_last sdk m (fst (sync_loop sdk m docs st w)) (snd (sync_loop sdk m docs st w)) = (st', w') \<Longrightarrow>
   bulk_inserts sdk m (chunks batch_size (batch st @ docs)) w = (rs, w'') \<Longrightarrow>
   w' = w'' \<and> total_synced st' = total_synced st + synced_of rs \<and>
     errors st' = errors st @ errors_of rs"
proof (induction docs arbitrary: st w rs)
  case Nil
  show ?case
  proof (cases "batch st = []")
    case True
    with Nil show ?thesis by (simp add: flush_last_def)
  next
    case False
    with Nil have c: "chunks batch_size (batch st) = [batch st]"
      by (simp add: chunks_short)
    from Nil False have ib: "insert_batch sdk m st w = (st', w')"
      by (simp add: flush_last_def)
    from insert_batch_bulk [OF ib, of "[]" rs w''] Nil(3) c
    show ?thesis by auto
  qed
next
  case (Cons d ds)
  let ?st1 = "st\<lparr>batch := batch st @ [d]\<rparr>"
  show ?case
  proof (cases "length (batch ?st1) = batch_size")
    case True
    obtain st2 w2 where ib: "insert_batch sdk m ?st1 w = (st2, w2)"
      by (cases "insert_batch sdk m ?st1 w")
    have c: "chunks batch_size (batch st @ d # ds) = (batch st @ [d]) # chunks batch_size ds"
      using True chunks_full [of batch_size "batch st @ [d]" ds]
      by (simp add: batch_size_def)
    from insert_batch_bulk [OF ib, of "chunks batch_size ds" rs w''] Cons.prems(3) c
    obtain r rs' where rs: "rs = (batch st @ [d], r) # rs'"
      and bi: "bulk_inserts sdk m (chunks batch_size ds) w2 = (rs', w'')"
      and ts: "total_synced st2 = total_synced st + synced_of [(batch st @ [d], r)]"
      and es: "errors st2 = errors st @ errors_of [(batch st @ [d], r)]"
      by auto
    have "w' = w'' \<and> total_synced st' = total_synced (st2\<lparr>batch := []\<rparr>) + synced_of rs' \<and>
          errors st' = errors (st2\<lparr>batch := []\<rparr>) @ errors_of rs'"
      using Cons.prems(2) True ib bi
      by (intro Cons.IH) (simp_all add: batch_size_def)
    with rs ts es show ?thesis by (cases r) auto
  next
    case False
    with Cons.prems(1) have lt: "length (batch ?st1) < batch_size" by simp
    have "w' = w'' \<and> total_synced st' = total_synced ?st1 + synced_of rs \<and>
          errors st' = errors ?st1 @ errors_of rs"
      using Cons.prems(2,3) False lt
      by (intro Cons.IH) simp_all
    then show ?thesis by simp
  qed
qed

lemma sync_batches_refines:
  assumes "bulk_inserts sdk m (chunks batch_size docs) w = (rs, w')"
  shows "\<exists>st. sync_batches sdk m (Cursor docs None) w = (Inr st, w') \<and>
          total_synced st = synced_of rs \<and> errors st = errors_of rs"
proof -
  let ?st0 = "\<lparr>total_synced = 0, errors = [], batch = []\<rparr>"
  obtain st1 w1 where l: "sync_loop sdk m docs ?st0 w = (st1, w1)"
    by (cases "sync_loop sdk m docs ?st0 w")
  obtain st2 w2 where f: "flush_last sdk m st1 w1 = (st2, w2)"
    by (cases "flush_last sdk m st1 w1")
  have "w2 = w' \<and> total_synced st2 = total_synced ?st0 + synced_of rs \<and>
        errors st2 = errors ?st0 @ errors_of rs"
    using l f assms by (intro flush_sync_loop) (simp_all add: batch_size_def)
  with l f show ?thesis by (simp add: sync_batches_def)
qed

lemma insert_batch_accounts:
  "insert_batch sdk m st w = (st', w') \<Longrightarrow>
   total_synced st' + length (errors st') = total_synced st + length (errors st) + length (batch st)"
  by (auto simp: insert_batch_def split: prod.splits sum.splits)

lemma sync_loop_accounts:
  "sync_loop sdk m docs st w = (st', w') \<Longrightarrow>
   total_synced st' + length (errors st') + length (batch st') =
     total_synced st + length (errors st) + length (batch st) + length docs"
proof (induction docs arbitrary: st w)
  case Nil
  then show ?case by simp
next
  case (Cons d ds)
  let ?st1 = "st\<lparr>batch := batch st @ [d]\<rparr>"
  show ?case
  proof (cases "length (batch ?st1) = batch_size")
    case True
    obtain st2 w2 where ib: "insert_batch sdk m ?st1 w = (st2, w2)"
      by (cases "insert_batch sdk m ?st1 w")
    with Cons.prems True have "sync_loop sdk m ds (st2\<lparr>batch := []\<rparr>) w2 = (st', w')"
      by simp
    from Cons.IH [OF this] insert_batch_accounts [OF ib] show ?thesis by simp
  next
    case False
    with Cons.prems have "sync_loop sdk m ds ?st1 w = (st', w')" by simp
    from Cons.IH [OF this] show ?thesis by simp
  qed
qed

lemma sync_batches_accounts:
  assumes "sync_batches sdk m (Cursor docs failure) w = (Inr st, w')"
  shows "failure = None \<and> total_synced st + length (errors st) = length docs"
proof -
  let ?st0 = "\<lparr>total_synced = 0, errors = [], batch = []\<rparr>"
  obtain st1 w1 where l: "sync_loop sdk m docs ?st0 w = (st1, w1)"
    by (cases "sync_loop sdk m docs ?st0 w")
  from assms l have none: "failure = None"
    by (cases failure) (simp_all add: sync_batches_def)
  with assms l have f: "flush_last sdk m st1 w1 = (st, w')"
    by (simp add: sync_batches_def split: prod.splits)
  have "total_synced st + length (errors st) = total_synced st1 + length (errors st1) + length (batch st1)"
    using f insert_batch_accounts [of sdk m st1 w1 st w']
    by (cases "batch st1 = []") (auto simp: flush_last_def)
  with sync_loop_accounts [OF l] none show ?thesis by simp
qed

lemma sync_try_Inr:
  assumes "sync_try sdk env self w = (Inr st, w')"
    and "on_collection self ''find'' (find_all sdk) w = (Inr cur, w1)"
  shows "\<exists>m w3. sync_batches sdk m cur w3 = (Inr st, w')"
  using assms by (auto simp: sync_try_def split: prod.splits sum.splits)

lemma insert_docs_fresh:
  "distinct (map doc_key (coll @ ds)) \<Longrightarrow> insert_docs ds coll = (None, coll @ ds)"
  by (induction ds arbitrary: coll) auto

lemma bulk_inserts_mem_fresh:
  "collection m = Some s \<Longrightarrow> distinct (map doc_key (users w s @ concat bs)) \<Longrightarrow>
   bulk_inserts mem_sdk m bs w =
     (map (\<lambda>b. (b, None)) bs,
      \<lparr>users = (users w)(s := users w s @ concat bs),
       calls = calls w @ map (CallInsertMany s) bs\<rparr>)"
proof (induction bs arbitrary: w)
  case Nil
  then show ?case by simp
next
  case (Cons b bs)
  from Cons.prems(2) have "distinct (map doc_key (users w s @ b))"
    by auto
  then have fresh: "insert_docs b (users w s) = (None, users w s @ b)"
    by (rule insert_docs_fresh)
  let ?w1 = "put_users s (users w s @ b) (logged (CallInsertMany s b) w)"
  have step: "on_collection m ''insert_many'' (\<lambda>c. insert_many mem_sdk c b) w = (Inr (), ?w1)"
    using Cons.prems(1) fresh by (simp add: on_collection_def mem_sdk_def mem_insert_many_def)
  have "distinct (map doc_key (users ?w1 s @ concat bs))"
    using Cons.prems(2) by (simp add: put_users_def logged_def)
  from Cons.IH [OF Cons.prems(1) this] step show ?case
    by (simp add: put_users_def logged_def fun_eq_iff)
qed

lemma synced_of_all: "synced_of (map (\<lambda>b. (b, None)) bs) = length (concat bs)"
  by (induction bs) auto

lemma errors_of_all: "errors_of (map (\<lambda>b. (b, None)) bs) = []"
  by (induction bs) auto

lemma map_fst_bulk_inserts: "map fst (fst (bulk_inserts sdk m bs w)) = bs"
proof (induction bs arbitrary: w)
  case Nil
  then show ?case by simp
next
  case (Cons b bs)
  obtain r w1 where s: "on_collection m ''insert_many'' (\<lambda>c. insert_many sdk c b) w = (r, w1)"
    by (cases "on_collection m ''insert_many'' (\<lambda>c. insert_many sdk c b) w")
  obtain rs w2 where t: "bulk_inserts sdk m bs w1 = (rs, w2)"
    by (cases "bulk_inserts sdk m bs w1")
  from Cons.IH [of w1] t have "map fst rs = bs" by simp
  with s t show ?case by simp
qed

lemma errors_of_member:
  "(b, Some e) \<in> set rs \<Longrightarrow> d \<in> set b \<Longrightarrow>
   ''User '' @ (case d ''_id'' of None \<Rightarrow> ''unknown'' | Some k \<Rightarrow> py_str k) @ '': '' @ exn_str e
     \<in> set (errors_of rs)"
  by (induction rs rule: errors_of.induct) auto

lemma delete_first_absent:
  "k \<notin> set (map doc_key ds) \<Longrightarrow> delete_first k ds = ds"
  by (induction ds) auto

lemma delete_first_present:
  "k \<in> set (map doc_key ds) \<Longrightarrow> Suc (length (delete_first k ds)) = length ds"
  by (induction ds) auto

lemma delete_first_distinct:
  "distinct (map doc_key ds) \<Longrightarrow> delete_first k ds = filter (\<lambda>d. doc_key d \<noteq> k) ds"
proof (induction ds)
  case Nil
  then show ?case by simp
next
  case (Cons d ds)
  show ?case
  proof (cases "doc_key d = k")
    case True
    with Cons.prems have "k \<notin> set (map doc_key ds)" by auto
    then have "filter (\<lambda>d. doc_key d \<noteq> k) ds = ds"
      by (induction ds) auto
    with True show ?thesis by simp
  next
    case False
    with Cons show ?thesis by simp
  qed
qed

lemma delete_user_mem:
  "collection self = Some s \<Longrightarrow>
   delete_user mem_sdk self k w =
     (Inr (Some (PStr k) \<in> set (map doc_key (users w s))),
      put_users s (delete_first (Some (PStr k)) (users w s)) (logged (CallDeleteOne s k) w))"
proof -
  assume c: "collection self = Some s"
  show ?thesis
  proof (cases "Some (PStr k) \<in> set (map doc_key (users w s))")
    case True
    from delete_first_present [OF True] c True show ?thesis
      by (simp add: delete_user_def on_collection_def mem_sdk_def mem_delete_one_def Let_def)
  next
    case False
    from delete_first_absent [OF False] c False show ?thesis
      by (simp add: delete_user_def on_collection_def mem_sdk_def mem_delete_one_def Let_def)
  qed
qed

lemma repeated_delete_absent:
  "collection self = Some s \<Longrightarrow> Some (PStr k) \<notin> set (map doc_key (users w s)) \<Longrightarrow>
   Some (PStr k) \<notin> set (map doc_key (users (((\<lambda>v. snd (delete_user mem_sdk self k v)) ^^ n) w) s))"
proof (induction n)
  case 0
  then show ?case by simp
next
  case (Suc n)
  let ?v = "((\<lambda>v. snd (delete_user mem_sdk self k v)) ^^ n) w"
  from Suc have a: "Some (PStr k) \<notin> set (map doc_key (users ?v s))" by simp
  from delete_first_absent [OF a] a show ?case
    by (simp add: delete_user_mem [OF Suc.prems(1)] put_users_def logged_def)
qed

lemma find_key:
  "List.find (\<lambda>d. doc_key d = k) ds = None \<longleftrightarrow> k \<notin> set (map doc_key ds)"
  by (auto simp: find_None_iff)

section \<open>The examples, evaluated\<close>

lemmas mem_eval = mem_sdk_def mem_insert_many_def mem_insert_one_def mem_find_all_def
  mem_find_one_def mem_delete_one_def put_users_def logged_def doc_key_def
  on_collection_def getenv_def env_set_def

lemmas setup_eval = DatabaseManager_def setup_connection_def setup_mongodb_def setup_hcd_def
  setup_astra_def

lemmas sync_eval = sync_try_def sync_batches_def flush_last_def insert_batch_def
  error_entry_def batch_size_def

lemmas example_eval = example_env_def mongo_facade_def six_users_def six_docs_def user_doc_def

lemma show_nat_small: "show_nat 0 = ''0''" "show_nat 6 = ''6''" "show_nat 250 = ''250''"
  "show_nat (Suc (Suc (Suc (Suc (Suc (Suc 0)))))) = ''6''"
  by (simp_all add: show_nat.simps digit_def)

lemma six_users_find:
  "on_collection mongo_facade ''find'' (find_all mem_sdk) six_users =
     (Inr (Cursor six_docs None), logged (CallFind MongoStore) six_users)"
  by (simp add: mem_eval mongo_facade_def six_users_def)

lemma example_env_manager:
  "DatabaseManager mem_sdk example_env w =
     (Inr mongo_facade,
      logged (CallMongoUsers ''mongodb://localhost:27017/'' ''user_profiles'') w)"
  by (simp add: setup_eval mem_eval example_env_def mongo_facade_def)

lemma example_env_hcd:
  "setup_hcd mem_sdk example_env (m\<lparr>db_type := ''hcd''\<rparr>) w =
     (Inr (m\<lparr>db_type := ''hcd'', collection := Some HcdStore\<rparr>),
      logged CallCreateCollection (logged (CallCreateKeyspace ''default_keyspace'')
        (logged (CallGetDatabase ''http://localhost:8181'' ''cassandra'' ''cassandra'') w)))"
  by (simp add: setup_hcd_def mem_eval example_env_def)

lemma example_env_ready:
  "getenv example_env ''DATABASE_TYPE'' ''mongodb'' = ''mongodb''"
  "env_set (example_env ''HCD_API_ENDPOINT'')"
  "env_set (example_env ''HCD_USERNAME'')"
  "env_set (example_env ''HCD_PASSWORD'')"
  by (simp_all add: getenv_def env_set_def example_env_def)

lemma example_env_values:
  "getenv example_env ''MONGODB_URI'' ''mongodb://localhost:27017/'' = ''mongodb://localhost:27017/''"
  "getenv example_env ''MONGODB_DATABASE'' ''user_profiles'' = ''user_profiles''"
  "getenv example_env ''HCD_KEYSPACE'' ''default_keyspace'' = ''default_keyspace''"
  "the (example_env ''HCD_API_ENDPOINT'') = ''http://localhost:8181''"
  "the (example_env ''HCD_USERNAME'') = ''cassandra''"
  "the (example_env ''HCD_PASSWORD'') = ''cassandra''"
  by (simp_all add: getenv_def example_env_def)

lemma six_docs_chunks: "chunks batch_size six_docs = [six_docs]"
  by (rule chunks_short) (simp_all add: six_docs_def batch_size_def)

lemma six_docs_bulk:
  "users w HcdStore = [user_doc ''u3''] \<Longrightarrow>
   fst (bulk_inserts mem_sdk (m\<lparr>db_type := ''hcd'', collection := Some HcdStore\<rparr>)
          [six_docs] w) =
     [(six_docs, Some (BackendError ''duplicate key error''))]"
  by (simp add: mem_eval user_doc_def six_docs_def split: prod.splits)

lemma six_docs_errors:
  "errors_of [(six_docs, Some (BackendError ''duplicate key error''))] =
     [''User u1: duplicate key error'', ''User u2: duplicate key error'',
      ''User u3: duplicate key error'', ''User u4: duplicate key error'',
      ''User u5: duplicate key error'', ''User u6: duplicate key error'']"
  by (simp add: six_docs_def user_doc_def)

lemma six_users_try:
  "fst (sync_try mem_sdk example_env mongo_facade six_users) =
     Inr \<lparr>total_synced = 0,
          errors = [''User u1: duplicate key error'', ''User u2: duplicate key error'',
                    ''User u3: duplicate key error'', ''User u4: duplicate key error'',
                    ''User u5: duplicate key error'', ''User u6: duplicate key error''],
          batch = six_docs\<rparr>"
  by (simp add: sync_eval setup_eval mem_eval example_eval)

lemma six_users_try_some:
  "\<exists>st. fst (sync_try mem_sdk example_env mongo_facade six_users) = Inr st"
  using six_users_try by blast

lemma no_config_try:
  "fst (sync_try mem_sdk Map.empty mongo_facade mem_empty) =
     Inl (ValueError
       ''HCD configuration incomplete. Check HCD_API_ENDPOINT, HCD_USERNAME, and HCD_PASSWORD'')"
  by (simp add: sync_eval setup_eval mem_eval mongo_facade_def mem_empty_def)

lemma many_users_fresh:
  "distinct (map doc_key (users many_users HcdStore @ users many_users MongoStore))"
proof -
  have "inj_on (\<lambda>i. doc_key (user_doc (show_nat i))) (set [0..<250])"
    by (rule inj_onI) (simp add: doc_key_def user_doc_def injD [OF inj_show_nat])
  then show ?thesis
    by (simp add: many_users_def distinct_map comp_def)
qed

lemma mem_empty_fresh:
  "distinct (map doc_key (users mem_empty HcdStore @ users mem_empty MongoStore))"
  by (simp add: mem_empty_def)

lemma six_users_distinct: "distinct (map doc_key (users six_users MongoStore))"
  by (simp add: six_users_def six_docs_def user_doc_def doc_key_def)

lemma mongo_facade_collection: "collection mongo_facade = Some MongoStore"
  by (simp add: mongo_facade_def)

lemma length_numbered_docs [simp]: "length (numbered_docs a b) = b - a"
  by (simp add: numbered_docs_def)

lemma numbered_docs_split:
  "a \<le> b \<Longrightarrow> b \<le> c \<Longrightarrow> numbered_docs a c = numbered_docs a b @ numbered_docs b c"
  using upt_add_eq_append [of a b "c - b"] by (simp add: numbered_docs_def)

lemma keys_numbered_docs:
  "map doc_key (numbered_docs a b) = map (\<lambda>i. Some (PStr (show_nat i))) [a..<b]"
  by (simp add: numbered_docs_def doc_key_def user_doc_def)

lemma distinct_numbered_docs: "distinct (map doc_key (numbered_docs a b))"
proof -
  have "inj_on (\<lambda>i. Some (PStr (show_nat i))) (set [a..<b])"
    by (rule inj_onI) (simp add: injD [OF inj_show_nat])
  then show ?thesis by (simp add: keys_numbered_docs distinct_map)
qed

lemma show_nat_eq: "show_nat a = show_nat b \<longleftrightarrow> a = b"
  by (rule inj_eq [OF inj_show_nat])

lemma key_numbered_docs:
  "Some (PStr (show_nat n)) \<in> set (map doc_key (numbered_docs a b)) \<longleftrightarrow> a \<le> n \<and> n < b"
  by (auto simp: keys_numbered_docs show_nat_eq)

lemma clash_chunks:
  "chunks batch_size (numbered_docs 1 251) =
     [numbered_docs 1 101, numbered_docs 101 201, numbered_docs 201 251]"
proof -
  have s: "numbered_docs 1 251 =
      numbered_docs 1 101 @ numbered_docs 101 201 @ numbered_docs 201 251"
    using numbered_docs_split [of 1 101 251] numbered_docs_split [of 101 201 251] by simp
  have "chunks batch_size (numbered_docs 201 251) = [numbered_docs 201 251]"
    by (rule chunks_short) (simp_all add: batch_size_def numbered_docs_def)
  then show ?thesis
    unfolding s by (simp add: chunks_full batch_size_def)
qed

lemma insert_docs_clash:
  "d \<in> set ds \<Longrightarrow> doc_key d \<in> set (map doc_key coll) \<Longrightarrow>
   fst (insert_docs ds coll) = Some (BackendError ''duplicate key error'')"
  by (induction ds arbitrary: coll) auto

lemma insert_docs_keys:
  "set (map doc_key (snd (insert_docs ds coll)))
     \<subseteq> set (map doc_key coll) \<union> set (map doc_key ds)"
proof (induction ds arbitrary: coll)
  case Nil
  then show ?case by simp
next
  case (Cons d ds)
  show ?case
  proof (cases "doc_key d \<in> set (map doc_key coll)")
    case True
    then show ?thesis by auto
  next
    case False
    with Cons.IH [of "coll @ [d]"] show ?thesis by auto
  qed
qed

lemma insert_docs_distinct:
  "distinct (map doc_key coll) \<Longrightarrow> distinct (map doc_key (snd (insert_docs ds coll)))"
  by (induction ds arbitrary: coll) auto

lemma mem_insert_many_result:
  "collection m = Some s \<Longrightarrow>
   on_collection m ''insert_many'' (\<lambda>c. insert_many mem_sdk c b) w =
     (case fst (insert_docs b (users w s)) of None \<Rightarrow> Inr () | Some e \<Rightarrow> Inl e,
      put_users s (snd (insert_docs b (users w s))) (logged (CallInsertMany s b) w))"
  by (simp add: on_collection_def mem_sdk_def mem_insert_many_def split: prod.splits option.splits)

lemma clash_bulk:
  assumes c: "collection m = Some HcdStore"
    and u: "users w HcdStore = [user_doc ''150'']"
  shows "fst (bulk_inserts mem_sdk m
                [numbered_docs 1 101, numbered_docs 101 201, numbered_docs 201 251] w) =
     [(numbered_docs 1 101, None),
      (numbered_docs 101 201, Some (BackendError ''duplicate key error'')),
      (numbered_docs 201 251, None)]"
proof -
  let ?b1 = "numbered_docs 1 101" and ?b2 = "numbered_docs 101 201"
    and ?b3 = "numbered_docs 201 251"
  have k150: "doc_key (user_doc ''150'') = Some (PStr (show_nat 150))"
    by (simp add: doc_key_def user_doc_def show_nat.simps digit_def)
  have "distinct (map doc_key ([user_doc ''150''] @ ?b1))"
    using distinct_numbered_docs [of 1 101] key_numbered_docs [of 150 1 101]
    by (simp add: k150)
  then have i1: "insert_docs ?b1 [user_doc ''150''] = (None, [user_doc ''150''] @ ?b1)"
    by (rule insert_docs_fresh)
  let ?c1 = "[user_doc ''150''] @ ?b1"
  let ?w1 = "put_users HcdStore ?c1 (logged (CallInsertMany HcdStore ?b1) w)"
  have s1: "on_collection m ''insert_many'' (\<lambda>c. insert_many mem_sdk c ?b1) w = (Inr (), ?w1)"
    using mem_insert_many_result [OF c, of ?b1 w]
    by (simp only: u i1 fst_conv snd_conv option.case)
  have u1: "users ?w1 HcdStore = ?c1" by (simp add: put_users_def logged_def)
  have in2: "user_doc (show_nat 150) \<in> set ?b2"
    by (simp add: numbered_docs_def)
  have "doc_key (user_doc (show_nat 150)) \<in> set (map doc_key ?c1)"
    using k150 by (simp add: doc_key_def user_doc_def)
  from insert_docs_clash [OF in2 this]
  have i2: "fst (insert_docs ?b2 ?c1) = Some (BackendError ''duplicate key error'')" .
  let ?c2 = "snd (insert_docs ?b2 ?c1)"
  let ?w2 = "put_users HcdStore ?c2 (logged (CallInsertMany HcdStore ?b2) ?w1)"
  have s2: "on_collection m ''insert_many'' (\<lambda>c. insert_many mem_sdk c ?b2) ?w1 =
      (Inl (BackendError ''duplicate key error''), ?w2)"
    using mem_insert_many_result [OF c, of ?b2 ?w1] by (simp only: u1 i2 option.case)
  have u2: "users ?w2 HcdStore = ?c2" by (simp add: put_users_def logged_def)
  have d1: "distinct (map doc_key ?c1)"
    using distinct_numbered_docs [of 1 101] key_numbered_docs [of 150 1 101]
    by (simp add: k150)
  have d2: "distinct (map doc_key ?c2)"
    using d1 by (rule insert_docs_distinct)
  have sub: "set (map doc_key ?c2) \<subseteq> set (map doc_key ?c1) \<union> set (map doc_key ?b2)"
    by (rule insert_docs_keys)
  have disj: "set (map doc_key ?c2) \<inter> set (map doc_key ?b3) = {}"
  proof -
    have "(set (map doc_key ?c1) \<union> set (map doc_key ?b2)) \<inter> set (map doc_key ?b3) = {}"
      by (auto simp: keys_numbered_docs k150 show_nat_eq)
    with sub show ?thesis by blast
  qed
  have "distinct (map doc_key (?c2 @ ?b3))"
    using d2 distinct_numbered_docs [of 201 251] disj by simp
  then have i3: "insert_docs ?b3 ?c2 = (None, ?c2 @ ?b3)"
    by (rule insert_docs_fresh)
  let ?w3 = "put_users HcdStore (?c2 @ ?b3) (logged (CallInsertMany HcdStore ?b3) ?w2)"
  have s3: "on_collection m ''insert_many'' (\<lambda>c. insert_many mem_sdk c ?b3) ?w2 = (Inr (), ?w3)"
    using mem_insert_many_result [OF c, of ?b3 ?w2]
    by (simp only: u2 i3 fst_conv snd_conv option.case)
  show ?thesis
    by (simp only: bulk_inserts.simps s1 s2 s3 prod.case sum.case fst_conv)
qed

lemma clash_users_find:
  "on_collection mongo_facade ''find'' (find_all mem_sdk) clash_users =
     (Inr (Cursor (numbered_docs 1 251) None), logged (CallFind MongoStore) clash_users)"
  by (simp add: mem_eval mongo_facade_def clash_users_def)

lemma clash_synced:
  "synced_of [(numbered_docs 1 101, None),
      (numbered_docs 101 201, Some (BackendError ''duplicate key error'')),
      (numbered_docs 201 251, None)] = 150"
  by simp

lemma clash_errors:
  "length (errors_of [(numbered_docs 1 101, None),
      (numbered_docs 101 201, Some (BackendError ''duplicate key error'')),
      (numbered_docs 201 251, None)]) = 100"
  "take 5 (errors_of [(numbered_docs 1 101, None),
      (numbered_docs 101 201, Some (BackendError ''duplicate key error'')),
      (numbered_docs 201 251, None)]) =
     [''User 101: duplicate key error'', ''User 102: duplicate key error'',
      ''User 103: duplicate key error'', ''User 104: duplicate key error'',
      ''User 105: duplicate key error'']"
proof -
  show "length (errors_of [(numbered_docs 1 101, None),
      (numbered_docs 101 201, Some (BackendError ''duplicate key error'')),
      (numbered_docs 201 251, None)]) = 100"
    by simp
  have s: "numbered_docs 101 201 = numbered_docs 101 106 @ numbered_docs 106 201"
    by (rule numbered_docs_split) simp_all
  have f: "numbered_docs 101 106 =
      [user_doc ''101'', user_doc ''102'', user_doc ''103'', user_doc ''104'', user_doc ''105'']"
    by (simp add: numbered_docs_def upt_rec show_nat.simps digit_def)
  show "take 5 (errors_of [(numbered_docs 1 101, None),
      (numbered_docs 101 201, Some (BackendError ''duplicate key error'')),
      (numbered_docs 201 251, None)]) =
     [''User 101: duplicate key error'', ''User 102: duplicate key error'',
      ''User 103: duplicate key error'', ''User 104: duplicate key error'',
      ''User 105: duplicate key error'']"
    unfolding s f by (simp add: user_doc_def)
qed

lemma show_nat_hundreds: "show_nat 150 = ''150''" "show_nat 100 = ''100''"
  by (simp_all add: show_nat.simps digit_def)

section \<open>Construction\<close>

text \<open>
  C9, as the code has it. Construction with a selector that is none of \<^verbatim>\<open>mongodb\<close>, \<^verbatim>\<open>hcd\<close>, \<^verbatim>\<open>astra\<close>
  raises a ValueError that names the selector. Construction for \<^verbatim>\<open>hcd\<close> or \<^verbatim>\<open>astra\<close>
  with one of the three mandatory settings unset or empty raises a ValueError whose
  message is one fixed text for the backend, which lists all three settings whichever of
  them is missing. In each case no manager is returned and the outside world is the one
  before the call, whatever the client libraries are: no call into them was made.
\<close>

theorem construction_fails_fast:
  "(getenv env ''DATABASE_TYPE'' ''mongodb'' \<notin> {''mongodb'', ''hcd'', ''astra''} \<longrightarrow>
      DatabaseManager sdk env w =
        (Inl (ValueError (''Unsupported database type: ''
                @ getenv env ''DATABASE_TYPE'' ''mongodb'')), w)) \<and>
   (env ''DATABASE_TYPE'' = Some ''hcd'' \<and>
    \<not> (env_set (env ''HCD_API_ENDPOINT'') \<and> env_set (env ''HCD_USERNAME'')
         \<and> env_set (env ''HCD_PASSWORD'')) \<longrightarrow>
      DatabaseManager sdk env w =
        (Inl (ValueError
          ''HCD configuration incomplete. Check HCD_API_ENDPOINT, HCD_USERNAME, and HCD_PASSWORD''), w)) \<and>
   (env ''DATABASE_TYPE'' = Some ''astra'' \<and>
    \<not> (env_set (env ''ASTRA_DB_ID'') \<and> env_set (env ''ASTRA_DB_REGION'')
         \<and> env_set (env ''ASTRA_DB_TOKEN'')) \<longrightarrow>
      DatabaseManager sdk env w =
        (Inl (ValueError
          ''Astra DB configuration incomplete. Check ASTRA_DB_ID, ASTRA_DB_REGION, and ASTRA_DB_TOKEN''), w))"
  by (auto simp: DatabaseManager_def setup_connection_def setup_hcd_def setup_astra_def
        getenv_def)

theorem construction_fails_fast_witness:
  "getenv [''DATABASE_TYPE'' \<mapsto> ''postgres''] ''DATABASE_TYPE'' ''mongodb''
     \<notin> {''mongodb'', ''hcd'', ''astra''} \<and>
   DatabaseManager mem_sdk [''DATABASE_TYPE'' \<mapsto> ''postgres''] mem_empty =
     (Inl (ValueError ''Unsupported database type: postgres''), mem_empty) \<and>
   \<not> env_set ([''DATABASE_TYPE'' \<mapsto> ''hcd'', ''HCD_API_ENDPOINT'' \<mapsto> ''http://localhost:8181'']
                ''HCD_PASSWORD'') \<and>
   DatabaseManager mem_sdk
       [''DATABASE_TYPE'' \<mapsto> ''hcd'', ''HCD_API_ENDPOINT'' \<mapsto> ''http://localhost:8181'']
       mem_empty =
     (Inl (ValueError
        ''HCD configuration incomplete. Check HCD_API_ENDPOINT, HCD_USERNAME, and HCD_PASSWORD''),
      mem_empty) \<and>
   \<not> env_set ([''DATABASE_TYPE'' \<mapsto> ''astra'', ''ASTRA_DB_ID'' \<mapsto> ''db1'',
                 ''ASTRA_DB_REGION'' \<mapsto> ''eu-west-1'', ''ASTRA_DB_TOKEN'' \<mapsto> []]
                ''ASTRA_DB_TOKEN'') \<and>
   DatabaseManager mem_sdk
       [''DATABASE_TYPE'' \<mapsto> ''astra'', ''ASTRA_DB_ID'' \<mapsto> ''db1'',
        ''ASTRA_DB_REGION'' \<mapsto> ''eu-west-1'', ''ASTRA_DB_TOKEN'' \<mapsto> []]
       mem_empty =
     (Inl (ValueError
        ''Astra DB configuration incomplete. Check ASTRA_DB_ID, ASTRA_DB_REGION, and ASTRA_DB_TOKEN''),
      mem_empty)"
  using construction_fails_fast [of "[''DATABASE_TYPE'' \<mapsto> ''postgres'']" mem_sdk mem_empty]
    construction_fails_fast
      [of "[''DATABASE_TYPE'' \<mapsto> ''hcd'', ''HCD_API_ENDPOINT'' \<mapsto> ''http://localhost:8181'']"
          mem_sdk mem_empty]
    construction_fails_fast
      [of "[''DATABASE_TYPE'' \<mapsto> ''astra'', ''ASTRA_DB_ID'' \<mapsto> ''db1'',
            ''ASTRA_DB_REGION'' \<mapsto> ''eu-west-1'', ''ASTRA_DB_TOKEN'' \<mapsto> []]"
          mem_sdk mem_empty]
  by (simp add: getenv_def env_set_def)

text \<open>
  The claim as the specification words it has the error name the settings that are
  missing. A configuration that lacks only the password and one that lacks only the
  endpoint raise the same message, which lists the settings that are present as well.
\<close>

theorem construction_error_is_one_message:
  "env_set (env_without_password ''HCD_API_ENDPOINT'') \<and>
   env_set (env_without_password ''HCD_USERNAME'') \<and>
   \<not> env_set (env_without_password ''HCD_PASSWORD'') \<and>
   \<not> env_set (env_without_endpoint ''HCD_API_ENDPOINT'') \<and>
   env_set (env_without_endpoint ''HCD_USERNAME'') \<and>
   env_set (env_without_endpoint ''HCD_PASSWORD'') \<and>
   fst (DatabaseManager mem_sdk env_without_password mem_empty) =
     Inl (ValueError
       ''HCD configuration incomplete. Check HCD_API_ENDPOINT, HCD_USERNAME, and HCD_PASSWORD'') \<and>
   fst (DatabaseManager mem_sdk env_without_endpoint mem_empty) =
     Inl (ValueError
       ''HCD configuration incomplete. Check HCD_API_ENDPOINT, HCD_USERNAME, and HCD_PASSWORD'')"
  by (simp add: DatabaseManager_def setup_connection_def setup_hcd_def getenv_def env_set_def
        env_without_password_def env_without_endpoint_def)

section \<open>Migration from a facade that is not the source\<close>

text \<open>
  C1, as the code has it. On a facade whose selector is not \<^verbatim>\<open>mongodb\<close> the migration
  returns at once the dictionary of two entries, \<^verbatim>\<open>success\<close> false and the message
  \<^verbatim>\<open>Sync only available from MongoDB\<close>, and leaves the outside world as it was, whatever
  the client libraries are: nothing was read from the source and nothing written to the
  destination. The dictionary has no \<^verbatim>\<open>synced_count\<close> entry.
\<close>

theorem sync_refuses_other_backend:
  "db_type self \<noteq> ''mongodb'' \<Longrightarrow>
   sync_mongodb_to_hcd sdk env self w =
     (Inr [''success'' \<mapsto> RBool False,
           ''message'' \<mapsto> RStr ''Sync only available from MongoDB''], w)"
  by (simp add: sync_mongodb_to_hcd_def)

theorem sync_refuses_other_backend_witness:
  "db_type \<lparr>db_type = ''hcd'', collection = Some HcdStore\<rparr> \<noteq> ''mongodb'' \<and>
   sync_mongodb_to_hcd mem_sdk Map.empty
       \<lparr>db_type = ''hcd'', collection = Some HcdStore\<rparr> mem_empty =
     (Inr [''success'' \<mapsto> RBool False,
           ''message'' \<mapsto> RStr ''Sync only available from MongoDB''], mem_empty)"
  using sync_refuses_other_backend
    [of "\<lparr>db_type = ''hcd'', collection = Some HcdStore\<rparr>" mem_sdk Map.empty mem_empty]
  by simp

text \<open>
  The claim as the specification words it asks for \<^verbatim>\<open>synced_count = 0\<close> in that result.
  On a facade bound to HCD the returned dictionary has no such entry.
\<close>

theorem sync_refusal_lacks_synced_count:
  "fst (sync_mongodb_to_hcd mem_sdk Map.empty
          \<lparr>db_type = ''hcd'', collection = Some HcdStore\<rparr> mem_empty) =
     Inr [''success'' \<mapsto> RBool False,
          ''message'' \<mapsto> RStr ''Sync only available from MongoDB''] \<and>
   [''success'' \<mapsto> RBool False,
    ''message'' \<mapsto> RStr ''Sync only available from MongoDB''] ''synced_count''
     \<noteq> Some (RInt 0)"
  by (simp add: sync_mongodb_to_hcd_def)

section \<open>What a migration returns\<close>

text \<open>
  C2, as the code has it. Whatever the client libraries do, the migration returns a
  dictionary and raises nothing. The dictionary always holds a boolean \<^verbatim>\<open>success\<close> and a
  string \<^verbatim>\<open>message\<close>. \<^verbatim>\<open>success\<close> is true exactly when the facade is bound to
  \<^verbatim>\<open>mongodb\<close> and the body of the \<^verbatim>\<open>try\<close> raises nothing; then the dictionary also holds
  an integer \<^verbatim>\<open>synced_count\<close> and a list \<^verbatim>\<open>errors\<close> of at most five strings. When
  \<^verbatim>\<open>success\<close> is false the dictionary holds the two entries \<^verbatim>\<open>success\<close> and \<^verbatim>\<open>message\<close>
  and nothing else; when the body raised, the message is \<^verbatim>\<open>Sync failed: \<close> followed by
  the text of the exception, and when the facade is not bound to \<^verbatim>\<open>mongodb\<close> the message
  is \<^verbatim>\<open>Sync only available from MongoDB\<close> and the outside world is left as it was.
\<close>

theorem sync_always_returns_report:
  "\<exists>r w'. sync_mongodb_to_hcd sdk env self w = (Inr r, w') \<and>
     (\<exists>b. r ''success'' = Some (RBool b)) \<and>
     (\<exists>msg. r ''message'' = Some (RStr msg)) \<and>
     (r ''success'' = Some (RBool True) \<longleftrightarrow>
        db_type self = ''mongodb'' \<and> (\<exists>st. fst (sync_try sdk env self w) = Inr st)) \<and>
     (r ''success'' = Some (RBool True) \<longrightarrow>
        (\<exists>n es. r ''synced_count'' = Some (RInt n) \<and> r ''errors'' = Some (RList es) \<and> length es \<le> 5)) \<and>
     (r ''success'' = Some (RBool False) \<longrightarrow> dom r = {''success'', ''message''}) \<and>
     (\<forall>e. db_type self = ''mongodb'' \<and> fst (sync_try sdk env self w) = Inl e \<longrightarrow>
        r ''message'' = Some (RStr (''Sync failed: '' @ exn_str e))) \<and>
     (db_type self \<noteq> ''mongodb'' \<longrightarrow>
        r ''message'' = Some (RStr ''Sync only available from MongoDB'') \<and> w' = w)"
proof (cases "db_type self = ''mongodb''")
  case False
  then show ?thesis by (auto simp: sync_mongodb_to_hcd_def)
next
  case True
  obtain res w1 where t: "sync_try sdk env self w = (res, w1)"
    by (cases "sync_try sdk env self w")
  show ?thesis
  proof (cases res)
    case (Inl e)
    with True t show ?thesis by (auto simp: sync_mongodb_to_hcd_def)
  next
    case (Inr st)
    with True t show ?thesis by (auto simp: sync_mongodb_to_hcd_def sync_report_def Let_def)
  qed
qed

text \<open>
  The theorem at three runs: the six users with the HCD settings present, an empty
  configuration, where the set-up of the destination raises, and a facade bound to HCD.
\<close>

theorem sync_always_returns_report_witness:
  "(\<exists>r w'. sync_mongodb_to_hcd mem_sdk example_env mongo_facade six_users = (Inr r, w') \<and>
       r ''success'' = Some (RBool True) \<and>
       (\<exists>n es. r ''synced_count'' = Some (RInt n) \<and> r ''errors'' = Some (RList es)
          \<and> length es \<le> 5)) \<and>
   (\<exists>r w'. sync_mongodb_to_hcd mem_sdk Map.empty mongo_facade mem_empty = (Inr r, w') \<and>
       r ''success'' = Some (RBool False) \<and>
       dom r = {''success'', ''message''} \<and>
       r ''message'' = Some (RStr
         ''Sync failed: HCD configuration incomplete. Check HCD_API_ENDPOINT, HCD_USERNAME, and HCD_PASSWORD'')) \<and>
   (\<exists>r. sync_mongodb_to_hcd mem_sdk Map.empty
            \<lparr>db_type = ''hcd'', collection = Some HcdStore\<rparr> mem_empty = (Inr r, mem_empty) \<and>
       r ''success'' = Some (RBool False) \<and>
       dom r = {''success'', ''message''} \<and>
       r ''message'' = Some (RStr ''Sync only available from MongoDB''))"
proof -
  have m: "db_type mongo_facade = ''mongodb''" by (simp add: mongo_facade_def)
  have p1: "\<exists>r w'. sync_mongodb_to_hcd mem_sdk example_env mongo_facade six_users = (Inr r, w') \<and>
       r ''success'' = Some (RBool True) \<and>
       (\<exists>n es. r ''synced_count'' = Some (RInt n) \<and> r ''errors'' = Some (RList es)
          \<and> length es \<le> 5)"
  proof -
    from sync_always_returns_report [of mem_sdk example_env mongo_facade six_users]
    obtain r w' where
      r: "sync_mongodb_to_hcd mem_sdk example_env mongo_facade six_users = (Inr r, w')"
      and t: "r ''success'' = Some (RBool True) \<longleftrightarrow>
          db_type mongo_facade = ''mongodb'' \<and>
          (\<exists>st. fst (sync_try mem_sdk example_env mongo_facade six_users) = Inr st)"
      and f: "r ''success'' = Some (RBool True) \<longrightarrow>
          (\<exists>n es. r ''synced_count'' = Some (RInt n) \<and> r ''errors'' = Some (RList es)
            \<and> length es \<le> 5)"
      by (elim exE conjE) (rule that; assumption)
    from t m six_users_try_some have s: "r ''success'' = Some (RBool True)" by simp
    with f have "\<exists>n es. r ''synced_count'' = Some (RInt n) \<and> r ''errors'' = Some (RList es)
            \<and> length es \<le> 5" by simp
    with r s show ?thesis by (intro exI [of _ r] exI [of _ w']) simp
  qed
  have p2: "\<exists>r w'. sync_mongodb_to_hcd mem_sdk Map.empty mongo_facade mem_empty = (Inr r, w') \<and>
       r ''success'' = Some (RBool False) \<and>
       dom r = {''success'', ''message''} \<and>
       r ''message'' = Some (RStr
         ''Sync failed: HCD configuration incomplete. Check HCD_API_ENDPOINT, HCD_USERNAME, and HCD_PASSWORD'')"
  proof -
    from sync_always_returns_report [of mem_sdk Map.empty mongo_facade mem_empty]
    obtain r w' bb where
      r: "sync_mongodb_to_hcd mem_sdk Map.empty mongo_facade mem_empty = (Inr r, w')"
      and bb: "r ''success'' = Some (RBool bb)"
      and t: "r ''success'' = Some (RBool True) \<longleftrightarrow>
          db_type mongo_facade = ''mongodb'' \<and>
          (\<exists>st. fst (sync_try mem_sdk Map.empty mongo_facade mem_empty) = Inr st)"
      and f: "r ''success'' = Some (RBool False) \<longrightarrow> dom r = {''success'', ''message''}"
      and e: "\<forall>e. db_type mongo_facade = ''mongodb'' \<and>
          fst (sync_try mem_sdk Map.empty mongo_facade mem_empty) = Inl e \<longrightarrow>
          r ''message'' = Some (RStr (''Sync failed: '' @ exn_str e))"
      by (elim exE conjE) (rule that; assumption)
    from t no_config_try have nt: "r ''success'' \<noteq> Some (RBool True)" by simp
    from bb nt have s: "r ''success'' = Some (RBool False)" by (cases bb) simp_all
    from e m no_config_try have
      "r ''message'' = Some (RStr (''Sync failed: '' @ exn_str (ValueError
         ''HCD configuration incomplete. Check HCD_API_ENDPOINT, HCD_USERNAME, and HCD_PASSWORD'')))"
      by (elim allE [of _ "ValueError
         ''HCD configuration incomplete. Check HCD_API_ENDPOINT, HCD_USERNAME, and HCD_PASSWORD''"]) simp
    then have msg: "r ''message'' = Some (RStr
           ''Sync failed: HCD configuration incomplete. Check HCD_API_ENDPOINT, HCD_USERNAME, and HCD_PASSWORD'')"
      by simp
    from f s have "dom r = {''success'', ''message''}" by simp
    with r s msg show ?thesis by (intro exI [of _ r] exI [of _ w']) simp
  qed
  have p3: "\<exists>r. sync_mongodb_to_hcd mem_sdk Map.empty
            \<lparr>db_type = ''hcd'', collection = Some HcdStore\<rparr> mem_empty = (Inr r, mem_empty) \<and>
       r ''success'' = Some (RBool False) \<and>
       dom r = {''success'', ''message''} \<and>
       r ''message'' = Some (RStr ''Sync only available from MongoDB'')"
  proof -
    let ?hcd = "\<lparr>db_type = ''hcd'', collection = Some HcdStore\<rparr>"
    have h: "db_type ?hcd \<noteq> ''mongodb''" by simp
    from sync_always_returns_report [of mem_sdk Map.empty ?hcd mem_empty]
    obtain r w' bb where
      r: "sync_mongodb_to_hcd mem_sdk Map.empty ?hcd mem_empty = (Inr r, w')"
      and bb: "r ''success'' = Some (RBool bb)"
      and t: "r ''success'' = Some (RBool True) \<longleftrightarrow>
          db_type ?hcd = ''mongodb'' \<and>
          (\<exists>st. fst (sync_try mem_sdk Map.empty ?hcd mem_empty) = Inr st)"
      and f: "r ''success'' = Some (RBool False) \<longrightarrow> dom r = {''success'', ''message''}"
      and o: "db_type ?hcd \<noteq> ''mongodb'' \<longrightarrow>
          r ''message'' = Some (RStr ''Sync only available from MongoDB'') \<and> w' = mem_empty"
      by (elim exE conjE) (rule that; assumption)
    from t h have nt: "r ''success'' \<noteq> Some (RBool True)" by simp
    from bb nt have s: "r ''success'' = Some (RBool False)" by (cases bb) simp_all
    from o h have msg: "r ''message'' = Some (RStr ''Sync only available from MongoDB'')"
      and w: "w' = mem_empty" by simp_all
    from f s have "dom r = {''success'', ''message''}" by simp
    with r s msg w show ?thesis by (intro exI [of _ r]) simp
  qed
  from p1 p2 p3 show ?thesis by (intro conjI)
qed

text \<open>
  The claim as the specification words it gives every result a \<^verbatim>\<open>synced_count\<close> and an
  \<^verbatim>\<open>errors\<close> entry. With no HCD settings the result of a migration from the document
  store has neither.
\<close>

theorem sync_failure_lacks_synced_count:
  "fst (sync_mongodb_to_hcd mem_sdk Map.empty mongo_facade mem_empty) =
     Inr [''success'' \<mapsto> RBool False,
          ''message'' \<mapsto> RStr
            ''Sync failed: HCD configuration incomplete. Check HCD_API_ENDPOINT, HCD_USERNAME, and HCD_PASSWORD''] \<and>
   [''success'' \<mapsto> RBool False,
    ''message'' \<mapsto> RStr
      ''Sync failed: HCD configuration incomplete. Check HCD_API_ENDPOINT, HCD_USERNAME, and HCD_PASSWORD'']
     ''synced_count'' = None \<and>
   [''success'' \<mapsto> RBool False,
    ''message'' \<mapsto> RStr
      ''Sync failed: HCD configuration incomplete. Check HCD_API_ENDPOINT, HCD_USERNAME, and HCD_PASSWORD'']
     ''errors'' = None"
  by (simp add: sync_mongodb_to_hcd_def sync_eval setup_eval mem_eval mongo_facade_def
        mem_empty_def)

section \<open>Keys of stored records\<close>

text \<open>
  C3 at a record whose caller supplies the key 42, an integer: the guard of
  \<^verbatim>\<open>create_user\<close> lets every truthy key through, so the record is stored and returned
  with the integer as its key, and no string is put in its place.
\<close>

theorem create_user_stores_integer_key:
  "create_user mem_sdk ''6f1c2a9e-58b1-4c1d-9a57-0d3e8b7a2f10'' mongo_facade
       [''_id'' \<mapsto> PInt 42, ''name'' \<mapsto> PStr ''Ann''] mem_empty =
     (Inr [''_id'' \<mapsto> PInt 42, ''name'' \<mapsto> PStr ''Ann''],
      \<lparr>users = (\<lambda>s. [])(MongoStore := [[''_id'' \<mapsto> PInt 42, ''name'' \<mapsto> PStr ''Ann'']]),
       calls = [CallInsertOne MongoStore [''_id'' \<mapsto> PInt 42, ''name'' \<mapsto> PStr ''Ann'']]\<rparr>)"
  by (simp add: create_user_def Let_def mem_eval mongo_facade_def mem_empty_def)

text \<open>
  What \<^verbatim>\<open>create_user\<close> does with the key, whatever the client libraries are. A record
  whose key is absent or falsy is given the drawn identifier, as a string, before the one
  call of \<^verbatim>\<open>insert_one\<close>; a record with a truthy key is passed on as it is. The record
  returned is the record inserted, and an exception of the insert is passed to the
  caller.
\<close>

lemma create_user_sets_missing_key:
  "(case user_data ''_id'' of None \<Rightarrow> True | Some v \<Rightarrow> \<not> truthy v) \<Longrightarrow>
   create_user sdk uuid4 self user_data w =
     (case on_collection self ''insert_one''
             (\<lambda>c. insert_one sdk c (user_data(''_id'' \<mapsto> PStr uuid4))) w of
        (Inl e, w1) \<Rightarrow> (Inl e, w1)
      | (Inr u, w1) \<Rightarrow> (Inr (user_data(''_id'' \<mapsto> PStr uuid4)), w1))"
  by (simp add: create_user_def Let_def)

lemma create_user_keeps_supplied_key:
  "user_data ''_id'' = Some v \<Longrightarrow> truthy v \<Longrightarrow>
   create_user sdk uuid4 self user_data w =
     (case on_collection self ''insert_one'' (\<lambda>c. insert_one sdk c user_data) w of
        (Inl e, w1) \<Rightarrow> (Inl e, w1)
      | (Inr u, w1) \<Rightarrow> (Inr user_data, w1))"
  by (simp add: create_user_def Let_def)

section \<open>Batches\<close>

text \<open>
  C4. Take a migration from the document store whose cursor yields \<open>docs\<close> and whose
  destination was set up. Its effect on the outside world is that of one bulk insert per
  group of \<open>chunks batch_size docs\<close>, in order, and of nothing else: a group that failed
  is not tried again record by record. Let \<open>rs\<close> pair every group with what its insert
  raised. The list \<^verbatim>\<open>errors\<close> that the body of the \<^verbatim>\<open>try\<close> ends with is \<open>errors_of rs\<close>: it
  holds the entry \<^verbatim>\<open>User <key>: <error text>\<close> of every record of every group that raised,
  and nothing else. Its \<^verbatim>\<open>total_synced\<close> counts the records of the groups that raised
  nothing. The result has \<^verbatim>\<open>success\<close> true, that count as \<^verbatim>\<open>synced_count\<close>, the first
  five entries of the list as \<^verbatim>\<open>errors\<close>, and a message that gives the length of the
  whole list.
\<close>

theorem failed_batches_become_error_entries:
  assumes "db_type self = ''mongodb''"
    and "on_collection self ''find'' (find_all sdk) w = (Inr (Cursor docs None), w1)"
    and "DatabaseManager sdk env w1 = (Inr m0, w2)"
    and "setup_hcd sdk env (m0\<lparr>db_type := ''hcd''\<rparr>) w2 = (Inr hcd_manager, w3)"
    and "bulk_inserts sdk hcd_manager (chunks batch_size docs) w3 = (rs, w')"
  shows "\<exists>st. sync_try sdk env self w = (Inr st, w') \<and>
    errors st = errors_of rs \<and>
    total_synced st = synced_of rs \<and>
    map fst rs = chunks batch_size docs \<and>
    (\<forall>b e d. (b, Some e) \<in> set rs \<and> d \<in> set b \<longrightarrow>
       ''User '' @ (case d ''_id'' of None \<Rightarrow> ''unknown'' | Some k \<Rightarrow> py_str k)
         @ '': '' @ exn_str e \<in> set (errors st)) \<and>
    sync_mongodb_to_hcd sdk env self w =
      (Inr [''success'' \<mapsto> RBool True,
            ''message'' \<mapsto> RStr
               (''Successfully synced '' @ show_nat (synced_of rs) @ '' users to DataStax HCD''
                  @ (if errors_of rs = [] then []
                     else ''. '' @ show_nat (length (errors_of rs))
                            @ '' users skipped (likely duplicates)'')),
            ''synced_count'' \<mapsto> RInt (int (synced_of rs)),
            ''errors'' \<mapsto> RList (take 5 (errors_of rs))], w')"
proof -
  from sync_batches_refines [OF assms(5)] obtain st
    where sb: "sync_batches sdk hcd_manager (Cursor docs None) w3 = (Inr st, w')"
      and ts: "total_synced st = synced_of rs" and es: "errors st = errors_of rs"
    by blast
  have t: "sync_try sdk env self w = (Inr st, w')"
    using assms(2,3,4) sb by (simp add: sync_try_def)
  with assms(1) have "sync_mongodb_to_hcd sdk env self w = (Inr (sync_report st), w')"
    by (simp add: sync_mongodb_to_hcd_def)
  then have r: "sync_mongodb_to_hcd sdk env self w =
      (Inr [''success'' \<mapsto> RBool True,
            ''message'' \<mapsto> RStr
               (''Successfully synced '' @ show_nat (synced_of rs) @ '' users to DataStax HCD''
                  @ (if errors_of rs = [] then []
                     else ''. '' @ show_nat (length (errors_of rs))
                            @ '' users skipped (likely duplicates)'')),
            ''synced_count'' \<mapsto> RInt (int (synced_of rs)),
            ''errors'' \<mapsto> RList (take 5 (errors_of rs))], w')"
    using ts es by (simp add: sync_report_def Let_def)
  have g: "map fst rs = chunks batch_size docs"
    using map_fst_bulk_inserts [of sdk hcd_manager "chunks batch_size docs" w3] assms(5)
    by simp
  have m: "\<forall>b e d. (b, Some e) \<in> set rs \<and> d \<in> set b \<longrightarrow>
       ''User '' @ (case d ''_id'' of None \<Rightarrow> ''unknown'' | Some k \<Rightarrow> py_str k)
         @ '': '' @ exn_str e \<in> set (errors st)"
    unfolding es by (intro allI impI) (elim conjE, rule errors_of_member)
  from t es ts g m r show ?thesis by (intro exI [of _ st] conjI)
qed

text \<open>
  Six users, of which the third is already in HCD: the one bulk insert raises, all six
  are recorded, the first five of them returned, and none is counted. And the 250 users
  of which the 150th is already in HCD: the second of the three bulk inserts raises, its
  100 records are recorded, the first five of them returned, and the 150 records of the
  other two groups are counted.
\<close>

theorem failed_batches_become_error_entries_witness:
  "fst (sync_mongodb_to_hcd mem_sdk example_env mongo_facade six_users) =
     Inr [''success'' \<mapsto> RBool True,
          ''message'' \<mapsto> RStr
             ''Successfully synced 0 users to DataStax HCD. 6 users skipped (likely duplicates)'',
          ''synced_count'' \<mapsto> RInt 0,
          ''errors'' \<mapsto> RList [''User u1: duplicate key error'', ''User u2: duplicate key error'',
                    ''User u3: duplicate key error'', ''User u4: duplicate key error'',
                    ''User u5: duplicate key error'']] \<and>
   (\<exists>st. fst (sync_try mem_sdk example_env mongo_facade six_users) = Inr st \<and>
      errors st = [''User u1: duplicate key error'', ''User u2: duplicate key error'',
                   ''User u3: duplicate key error'', ''User u4: duplicate key error'',
                   ''User u5: duplicate key error'', ''User u6: duplicate key error'']) \<and>
   fst (sync_mongodb_to_hcd mem_sdk example_env mongo_facade clash_users) =
     Inr [''success'' \<mapsto> RBool True,
          ''message'' \<mapsto> RStr
             ''Successfully synced 150 users to DataStax HCD. 100 users skipped (likely duplicates)'',
          ''synced_count'' \<mapsto> RInt 150,
          ''errors'' \<mapsto> RList [''User 101: duplicate key error'', ''User 102: duplicate key error'',
                    ''User 103: duplicate key error'', ''User 104: duplicate key error'',
                    ''User 105: duplicate key error'']] \<and>
   (\<exists>st. fst (sync_try mem_sdk example_env mongo_facade clash_users) = Inr st \<and>
      total_synced st = 150 \<and> length (errors st) = 100)"
proof -
  let ?hcd = "mongo_facade\<lparr>db_type := ''hcd'', collection := Some HcdStore\<rparr>"
  let ?e = "BackendError ''duplicate key error''"
  have a: "db_type mongo_facade = ''mongodb''" by (simp add: mongo_facade_def)
  have c: "collection ?hcd = Some HcdStore" by simp

  let ?v3 = "logged CallCreateCollection (logged (CallCreateKeyspace ''default_keyspace'')
        (logged (CallGetDatabase ''http://localhost:8181'' ''cassandra'' ''cassandra'')
          (logged (CallMongoUsers ''mongodb://localhost:27017/'' ''user_profiles'')
            (logged (CallFind MongoStore) six_users))))"
  let ?rs6 = "[(six_docs, Some ?e)]"
  have u6: "users ?v3 HcdStore = [user_doc ''u3'']"
    by (simp add: logged_def six_users_def)
  have "fst (bulk_inserts mem_sdk ?hcd (chunks batch_size six_docs) ?v3) = ?rs6"
    unfolding six_docs_chunks by (rule six_docs_bulk [OF u6])
  then have b6: "bulk_inserts mem_sdk ?hcd (chunks batch_size six_docs) ?v3 =
      (?rs6, snd (bulk_inserts mem_sdk ?hcd (chunks batch_size six_docs) ?v3))"
    by (simp add: prod_eq_iff)
  from failed_batches_become_error_entries
    [OF a six_users_find example_env_manager example_env_hcd b6]
  obtain st6 where
    t6: "sync_try mem_sdk example_env mongo_facade six_users =
           (Inr st6, snd (bulk_inserts mem_sdk ?hcd (chunks batch_size six_docs) ?v3))"
    and e6: "errors st6 = errors_of ?rs6"
    and r6: "sync_mongodb_to_hcd mem_sdk example_env mongo_facade six_users =
      (Inr [''success'' \<mapsto> RBool True,
            ''message'' \<mapsto> RStr
               (''Successfully synced '' @ show_nat (synced_of ?rs6) @ '' users to DataStax HCD''
                  @ (if errors_of ?rs6 = [] then []
                     else ''. '' @ show_nat (length (errors_of ?rs6))
                            @ '' users skipped (likely duplicates)'')),
            ''synced_count'' \<mapsto> RInt (int (synced_of ?rs6)),
            ''errors'' \<mapsto> RList (take 5 (errors_of ?rs6))],
       snd (bulk_inserts mem_sdk ?hcd (chunks batch_size six_docs) ?v3))"
    by (elim exE conjE) (rule that; assumption)
  have p1: "fst (sync_mongodb_to_hcd mem_sdk example_env mongo_facade six_users) =
     Inr [''success'' \<mapsto> RBool True,
          ''message'' \<mapsto> RStr
             ''Successfully synced 0 users to DataStax HCD. 6 users skipped (likely duplicates)'',
          ''synced_count'' \<mapsto> RInt 0,
          ''errors'' \<mapsto> RList [''User u1: duplicate key error'', ''User u2: duplicate key error'',
                    ''User u3: duplicate key error'', ''User u4: duplicate key error'',
                    ''User u5: duplicate key error'']]"
    unfolding r6 six_docs_errors by (simp add: show_nat_small)
  have p2: "\<exists>st. fst (sync_try mem_sdk example_env mongo_facade six_users) = Inr st \<and>
      errors st = [''User u1: duplicate key error'', ''User u2: duplicate key error'',
                   ''User u3: duplicate key error'', ''User u4: duplicate key error'',
                   ''User u5: duplicate key error'', ''User u6: duplicate key error'']"
    using t6 e6 unfolding six_docs_errors by (intro exI [of _ st6]) simp

  let ?w3 = "logged CallCreateCollection (logged (CallCreateKeyspace ''default_keyspace'')
        (logged (CallGetDatabase ''http://localhost:8181'' ''cassandra'' ''cassandra'')
          (logged (CallMongoUsers ''mongodb://localhost:27017/'' ''user_profiles'')
            (logged (CallFind MongoStore) clash_users))))"
  let ?rs = "[(numbered_docs 1 101, None), (numbered_docs 101 201, Some ?e),
              (numbered_docs 201 251, None)]"
  have u: "users ?w3 HcdStore = [user_doc ''150'']"
    by (simp add: logged_def clash_users_def)
  have "fst (bulk_inserts mem_sdk ?hcd (chunks batch_size (numbered_docs 1 251)) ?w3) = ?rs"
    unfolding clash_chunks by (rule clash_bulk [OF c u])
  then have b: "bulk_inserts mem_sdk ?hcd (chunks batch_size (numbered_docs 1 251)) ?w3 =
      (?rs, snd (bulk_inserts mem_sdk ?hcd (chunks batch_size (numbered_docs 1 251)) ?w3))"
    by (simp only: prod_eq_iff fst_conv snd_conv simp_thms)
  from failed_batches_become_error_entries
    [OF a clash_users_find example_env_manager example_env_hcd b]
  obtain st where
    t: "sync_try mem_sdk example_env mongo_facade clash_users =
           (Inr st, snd (bulk_inserts mem_sdk ?hcd (chunks batch_size (numbered_docs 1 251)) ?w3))"
    and e: "errors st = errors_of ?rs"
    and n: "total_synced st = synced_of ?rs"
    and r: "sync_mongodb_to_hcd mem_sdk example_env mongo_facade clash_users =
      (Inr [''success'' \<mapsto> RBool True,
            ''message'' \<mapsto> RStr
               (''Successfully synced '' @ show_nat (synced_of ?rs) @ '' users to DataStax HCD''
                  @ (if errors_of ?rs = [] then []
                     else ''. '' @ show_nat (length (errors_of ?rs))
                            @ '' users skipped (likely duplicates)'')),
            ''synced_count'' \<mapsto> RInt (int (synced_of ?rs)),
            ''errors'' \<mapsto> RList (take 5 (errors_of ?rs))],
       snd (bulk_inserts mem_sdk ?hcd (chunks batch_size (numbered_docs 1 251)) ?w3))"
    by (elim exE conjE) (rule that; assumption)
  have ne: "errors_of ?rs \<noteq> []"
  proof
    assume z: "errors_of ?rs = []"
    have "length (errors_of ?rs) = 0" unfolding z by simp
    with clash_errors(1) show False by (simp only:)
  qed
  have p3: "fst (sync_mongodb_to_hcd mem_sdk example_env mongo_facade clash_users) =
     Inr [''success'' \<mapsto> RBool True,
          ''message'' \<mapsto> RStr
             ''Successfully synced 150 users to DataStax HCD. 100 users skipped (likely duplicates)'',
          ''synced_count'' \<mapsto> RInt 150,
          ''errors'' \<mapsto> RList [''User 101: duplicate key error'', ''User 102: duplicate key error'',
                    ''User 103: duplicate key error'', ''User 104: duplicate key error'',
                    ''User 105: duplicate key error'']]"
    unfolding r clash_synced clash_errors if_not_P [OF ne] fst_conv
    by (simp add: show_nat_hundreds)
  have p4: "\<exists>st. fst (sync_try mem_sdk example_env mongo_facade clash_users) = Inr st \<and>
      total_synced st = 150 \<and> length (errors st) = 100"
    using t e n clash_synced clash_errors(1) by (intro exI [of _ st]) simp
  from p1 p2 p3 p4 show ?thesis by (intro conjI)
qed

text \<open>
  C5, on the reference backend. A migration from the document store to an HCD that
  shares no key with it, the keys of the source being distinct, returns \<^verbatim>\<open>success\<close>
  true, the number of source records as \<^verbatim>\<open>synced_count\<close> and an empty error list; HCD
  then holds its records followed by those of the source. After the five calls that read
  the source and set up the destination, the driver calls are the bulk inserts of the
  groups \<open>chunks batch_size\<close> of the source, in order. These groups are consecutive
  (their concatenation is the source), all of 100 records but a shorter last one: for 250
  records three, of 100, 100 and 50 records; for an empty source none.
\<close>

theorem sync_partitions_into_batches:
  assumes dt: "getenv env ''DATABASE_TYPE'' ''mongodb'' = ''mongodb''"
    and e1: "env_set (env ''HCD_API_ENDPOINT'')" and e2: "env_set (env ''HCD_USERNAME'')"
    and e3: "env_set (env ''HCD_PASSWORD'')"
    and fresh: "distinct (map doc_key (users w HcdStore @ users w MongoStore))"
  shows "sync_mongodb_to_hcd mem_sdk env \<lparr>db_type = ''mongodb'', collection = Some MongoStore\<rparr> w =
      (Inr [''success'' \<mapsto> RBool True,
            ''message'' \<mapsto> RStr (''Successfully synced '' @ show_nat (length (users w MongoStore))
                                   @ '' users to DataStax HCD''),
            ''synced_count'' \<mapsto> RInt (int (length (users w MongoStore))),
            ''errors'' \<mapsto> RList []],
       \<lparr>users = (users w)(HcdStore := users w HcdStore @ users w MongoStore),
        calls = calls w @
          [CallFind MongoStore,
           CallMongoUsers (getenv env ''MONGODB_URI'' ''mongodb://localhost:27017/'')
             (getenv env ''MONGODB_DATABASE'' ''user_profiles''),
           CallGetDatabase (the (env ''HCD_API_ENDPOINT'')) (the (env ''HCD_USERNAME''))
             (the (env ''HCD_PASSWORD'')),
           CallCreateKeyspace (getenv env ''HCD_KEYSPACE'' ''default_keyspace''),
           CallCreateCollection]
          @ map (CallInsertMany HcdStore) (chunks batch_size (users w MongoStore))\<rparr>) \<and>
    concat (chunks batch_size (users w MongoStore)) = users w MongoStore \<and>
    map length (chunks batch_size (users w MongoStore)) =
      replicate (length (users w MongoStore) div 100) 100
        @ (if length (users w MongoStore) mod 100 = 0 then []
           else [length (users w MongoStore) mod 100]) \<and>
    (length (users w MongoStore) = 250 \<longrightarrow>
       map length (chunks batch_size (users w MongoStore)) = [100, 100, 50]) \<and>
    (users w MongoStore = [] \<longrightarrow> chunks batch_size (users w MongoStore) = [])"
proof -
  let ?self = "\<lparr>db_type = ''mongodb'', collection = Some MongoStore\<rparr>"
  let ?docs = "users w MongoStore"
  let ?w1 = "logged (CallFind MongoStore) w"
  let ?w2 = "logged (CallMongoUsers (getenv env ''MONGODB_URI'' ''mongodb://localhost:27017/'')
             (getenv env ''MONGODB_DATABASE'' ''user_profiles'')) ?w1"
  let ?w3 = "logged CallCreateCollection
    (logged (CallCreateKeyspace (getenv env ''HCD_KEYSPACE'' ''default_keyspace''))
      (logged (CallGetDatabase (the (env ''HCD_API_ENDPOINT'')) (the (env ''HCD_USERNAME''))
             (the (env ''HCD_PASSWORD''))) ?w2))"
  let ?hcd = "\<lparr>db_type = ''hcd'', collection = Some HcdStore\<rparr>"
  have cc: "concat (chunks batch_size ?docs) = ?docs"
    by (simp add: concat_chunks batch_size_def)
  have sizes: "map length (chunks batch_size ?docs) =
      replicate (length ?docs div 100) 100
        @ (if length ?docs mod 100 = 0 then [] else [length ?docs mod 100])"
    using length_chunks [of batch_size ?docs] by (simp add: batch_size_def)
  have f: "on_collection ?self ''find'' (find_all mem_sdk) w = (Inr (Cursor ?docs None), ?w1)"
    by (simp add: on_collection_def mem_sdk_def mem_find_all_def)
  have d: "DatabaseManager mem_sdk env ?w1 = (Inr ?self, ?w2)"
    using dt by (simp add: DatabaseManager_def setup_connection_def setup_mongodb_def mem_sdk_def)
  have h: "setup_hcd mem_sdk env (?self\<lparr>db_type := ''hcd''\<rparr>) ?w2 = (Inr ?hcd, ?w3)"
    using e1 e2 e3 by (simp add: setup_hcd_def mem_sdk_def)
  have "distinct (map doc_key (users ?w3 HcdStore @ concat (chunks batch_size ?docs)))"
    using fresh cc by (simp add: logged_def)
  from bulk_inserts_mem_fresh [of ?hcd HcdStore ?w3, OF _ this]
  have b: "bulk_inserts mem_sdk ?hcd (chunks batch_size ?docs) ?w3 =
     (map (\<lambda>b. (b, None)) (chunks batch_size ?docs),
      \<lparr>users = (users ?w3)(HcdStore := users ?w3 HcdStore @ concat (chunks batch_size ?docs)),
       calls = calls ?w3 @ map (CallInsertMany HcdStore) (chunks batch_size ?docs)\<rparr>)"
    by simp
  from sync_batches_refines [OF b] obtain st where
    sb: "sync_batches mem_sdk ?hcd (Cursor ?docs None) ?w3 =
      (Inr st, \<lparr>users = (users ?w3)(HcdStore := users ?w3 HcdStore @ concat (chunks batch_size ?docs)),
       calls = calls ?w3 @ map (CallInsertMany HcdStore) (chunks batch_size ?docs)\<rparr>)"
    and ts: "total_synced st = synced_of (map (\<lambda>b. (b, None)) (chunks batch_size ?docs))"
    and es: "errors st = errors_of (map (\<lambda>b. (b, None)) (chunks batch_size ?docs))"
    by blast
  have t: "sync_try mem_sdk env ?self w =
      (Inr st, \<lparr>users = (users ?w3)(HcdStore := users ?w3 HcdStore @ concat (chunks batch_size ?docs)),
       calls = calls ?w3 @ map (CallInsertMany HcdStore) (chunks batch_size ?docs)\<rparr>)"
    using f d h sb by (simp add: sync_try_def)
  have ts': "total_synced st = length ?docs" using ts cc by (simp add: synced_of_all)
  have es': "errors st = []" using es by (simp add: errors_of_all)
  have "sync_mongodb_to_hcd mem_sdk env ?self w =
      (Inr (sync_report st), \<lparr>users = (users ?w3)(HcdStore := users ?w3 HcdStore @ concat (chunks batch_size ?docs)),
       calls = calls ?w3 @ map (CallInsertMany HcdStore) (chunks batch_size ?docs)\<rparr>)"
    using t by (simp add: sync_mongodb_to_hcd_def)
  then have main: "sync_mongodb_to_hcd mem_sdk env ?self w =
      (Inr [''success'' \<mapsto> RBool True,
            ''message'' \<mapsto> RStr (''Successfully synced '' @ show_nat (length ?docs)
                                   @ '' users to DataStax HCD''),
            ''synced_count'' \<mapsto> RInt (int (length ?docs)),
            ''errors'' \<mapsto> RList []],
       \<lparr>users = (users w)(HcdStore := users w HcdStore @ ?docs),
        calls = calls w @
          [CallFind MongoStore,
           CallMongoUsers (getenv env ''MONGODB_URI'' ''mongodb://localhost:27017/'')
             (getenv env ''MONGODB_DATABASE'' ''user_profiles''),
           CallGetDatabase (the (env ''HCD_API_ENDPOINT'')) (the (env ''HCD_USERNAME''))
             (the (env ''HCD_PASSWORD'')),
           CallCreateKeyspace (getenv env ''HCD_KEYSPACE'' ''default_keyspace''),
           CallCreateCollection]
          @ map (CallInsertMany HcdStore) (chunks batch_size ?docs)\<rparr>)"
    using ts' es' cc by (simp add: sync_report_def logged_def)
  have two: "replicate 2 (100::nat) = [100, 100]"
    by (simp add: numeral_2_eq_2)
  from main cc sizes two show ?thesis by simp
qed

text \<open>The theorem at 250 users with distinct keys and at an empty source.\<close>

theorem sync_partitions_into_batches_witness:
  "length (users many_users MongoStore) = 250 \<and>
   map length (chunks batch_size (users many_users MongoStore)) = [100, 100, 50] \<and>
   fst (sync_mongodb_to_hcd mem_sdk example_env
          \<lparr>db_type = ''mongodb'', collection = Some MongoStore\<rparr> many_users) =
     Inr [''success'' \<mapsto> RBool True,
          ''message'' \<mapsto> RStr ''Successfully synced 250 users to DataStax HCD'',
          ''synced_count'' \<mapsto> RInt 250,
          ''errors'' \<mapsto> RList []] \<and>
   users mem_empty MongoStore = [] \<and>
   fst (sync_mongodb_to_hcd mem_sdk example_env
          \<lparr>db_type = ''mongodb'', collection = Some MongoStore\<rparr> mem_empty) =
     Inr [''success'' \<mapsto> RBool True,
          ''message'' \<mapsto> RStr ''Successfully synced 0 users to DataStax HCD'',
          ''synced_count'' \<mapsto> RInt 0,
          ''errors'' \<mapsto> RList []] \<and>
   calls (snd (sync_mongodb_to_hcd mem_sdk example_env
          \<lparr>db_type = ''mongodb'', collection = Some MongoStore\<rparr> mem_empty)) =
     [CallFind MongoStore,
      CallMongoUsers ''mongodb://localhost:27017/'' ''user_profiles'',
      CallGetDatabase ''http://localhost:8181'' ''cassandra'' ''cassandra'',
      CallCreateKeyspace ''default_keyspace'',
      CallCreateCollection]"
proof -
  have n: "length (users many_users MongoStore) = 250"
    by (simp add: many_users_def)
  have e: "users mem_empty MongoStore = []" "calls mem_empty = []"
    by (simp_all add: mem_empty_def)
  note big = sync_partitions_into_batches
    [OF example_env_ready many_users_fresh]
  note small = sync_partitions_into_batches
    [OF example_env_ready mem_empty_fresh]
  from big n have b1: "map length (chunks batch_size (users many_users MongoStore)) = [100, 100, 50]"
    by (elim conjE) simp
  from big n have b2: "fst (sync_mongodb_to_hcd mem_sdk example_env
          \<lparr>db_type = ''mongodb'', collection = Some MongoStore\<rparr> many_users) =
     Inr [''success'' \<mapsto> RBool True,
          ''message'' \<mapsto> RStr ''Successfully synced 250 users to DataStax HCD'',
          ''synced_count'' \<mapsto> RInt 250,
          ''errors'' \<mapsto> RList []]"
    by (elim conjE) (simp add: show_nat_small)
  from small e have s1: "fst (sync_mongodb_to_hcd mem_sdk example_env
          \<lparr>db_type = ''mongodb'', collection = Some MongoStore\<rparr> mem_empty) =
     Inr [''success'' \<mapsto> RBool True,
          ''message'' \<mapsto> RStr ''Successfully synced 0 users to DataStax HCD'',
          ''synced_count'' \<mapsto> RInt 0,
          ''errors'' \<mapsto> RList []]"
    by (elim conjE) (simp add: show_nat_small)
  from small e have s2: "calls (snd (sync_mongodb_to_hcd mem_sdk example_env
          \<lparr>db_type = ''mongodb'', collection = Some MongoStore\<rparr> mem_empty)) =
     [CallFind MongoStore,
      CallMongoUsers ''mongodb://localhost:27017/'' ''user_profiles'',
      CallGetDatabase ''http://localhost:8181'' ''cassandra'' ''cassandra'',
      CallCreateKeyspace ''default_keyspace'',
      CallCreateCollection]"
    by (elim conjE) (simp add: example_env_values)
  from n b1 b2 e(1) s1 s2 show ?thesis by (intro conjI)
qed

text \<open>
  C10. When a migration from the document store comes through the body of the \<^verbatim>\<open>try\<close>
  with the final values \<open>st\<close> of its variables, the number of records the cursor
  yielded is \<^verbatim>\<open>total_synced\<close> plus the length of the whole list \<^verbatim>\<open>errors\<close>. The result
  reports \<^verbatim>\<open>total_synced\<close>, the first five errors, and a message that gives the length of
  the whole error list when that list is not empty.
\<close>

theorem sync_accounts_for_every_record:
  assumes "db_type self = ''mongodb''"
    and "on_collection self ''find'' (find_all sdk) w = (Inr (Cursor docs failure), w1)"
    and "sync_try sdk env self w = (Inr st, w')"
  shows "length docs = total_synced st + length (errors st) \<and>
    sync_mongodb_to_hcd sdk env self w = (Inr (sync_report st), w') \<and>
    sync_report st ''synced_count'' = Some (RInt (int (total_synced st))) \<and>
    sync_report st ''errors'' = Some (RList (take 5 (errors st))) \<and>
    sync_report st ''message'' = Some (RStr
      (''Successfully synced '' @ show_nat (total_synced st) @ '' users to DataStax HCD''
        @ (if errors st = [] then []
           else ''. '' @ show_nat (length (errors st)) @ '' users skipped (likely duplicates)'')))"
proof -
  from sync_try_Inr [OF assms(3,2)] obtain m w3
    where "sync_batches sdk m (Cursor docs failure) w3 = (Inr st, w')" by blast
  from sync_batches_accounts [OF this]
  have "length docs = total_synced st + length (errors st)" by simp
  moreover have "sync_mongodb_to_hcd sdk env self w = (Inr (sync_report st), w')"
    using assms(1,3) by (simp add: sync_mongodb_to_hcd_def)
  ultimately show ?thesis by (simp add: sync_report_def Let_def)
qed

text \<open>Six records read: none synced, six errors, five of them returned.\<close>

theorem sync_accounts_for_every_record_witness:
  "length six_docs = 0 + 6 \<and>
   fst (sync_mongodb_to_hcd mem_sdk example_env mongo_facade six_users) =
     Inr [''success'' \<mapsto> RBool True,
          ''message'' \<mapsto> RStr
             ''Successfully synced 0 users to DataStax HCD. 6 users skipped (likely duplicates)'',
          ''synced_count'' \<mapsto> RInt 0,
          ''errors'' \<mapsto> RList [''User u1: duplicate key error'', ''User u2: duplicate key error'',
                    ''User u3: duplicate key error'', ''User u4: duplicate key error'',
                    ''User u5: duplicate key error'']]"
proof -
  let ?st = "\<lparr>total_synced = 0,
          errors = [''User u1: duplicate key error'', ''User u2: duplicate key error'',
                    ''User u3: duplicate key error'', ''User u4: duplicate key error'',
                    ''User u5: duplicate key error'', ''User u6: duplicate key error''],
          batch = six_docs\<rparr>"
  have a: "db_type mongo_facade = ''mongodb''" by (simp add: mongo_facade_def)
  have t: "sync_try mem_sdk example_env mongo_facade six_users =
        (Inr ?st, snd (sync_try mem_sdk example_env mongo_facade six_users))"
    using six_users_try by (simp add: prod_eq_iff)
  from sync_accounts_for_every_record [OF a six_users_find t]
  show ?thesis by (simp add: sync_report_def show_nat_small)
qed

section \<open>Deleting and looking up by key\<close>

text \<open>
  C7, on the reference backend, whose keys are distinct. \<^verbatim>\<open>delete_user\<close> returns true
  exactly when a record with the key is stored. It removes one record when it returns
  true and none when it returns false; the records left are those with another key.
  Every further \<^verbatim>\<open>delete_user\<close> of the same key, however many follow, returns false.
\<close>

theorem delete_user_true_once:
  assumes c: "collection self = Some s"
    and d: "distinct (map doc_key (users w s))"
  shows "\<exists>w1. delete_user mem_sdk self k w =
             (Inr (Some (PStr k) \<in> set (map doc_key (users w s))), w1) \<and>
    length (users w s) - length (users w1 s) =
      (if Some (PStr k) \<in> set (map doc_key (users w s)) then 1 else 0) \<and>
    users w1 s = filter (\<lambda>d. doc_key d \<noteq> Some (PStr k)) (users w s) \<and>
    (\<forall>n. fst (delete_user mem_sdk self k
               (((\<lambda>v. snd (delete_user mem_sdk self k v)) ^^ n) w1)) = Inr False)"
proof -
  let ?w1 = "put_users s (delete_first (Some (PStr k)) (users w s)) (logged (CallDeleteOne s k) w)"
  have u: "users ?w1 s = filter (\<lambda>d. doc_key d \<noteq> Some (PStr k)) (users w s)"
    using delete_first_distinct [OF d] by (simp add: put_users_def logged_def)
  then have gone: "Some (PStr k) \<notin> set (map doc_key (users ?w1 s))" by auto
  have len: "length (users w s) - length (users ?w1 s) =
      (if Some (PStr k) \<in> set (map doc_key (users w s)) then 1 else 0)"
  proof (cases "Some (PStr k) \<in> set (map doc_key (users w s))")
    case True
    from delete_first_present [OF True] True show ?thesis
      by (simp add: put_users_def logged_def)
  next
    case False
    from delete_first_absent [OF False] False show ?thesis
      by (simp add: put_users_def logged_def)
  qed
  have "fst (delete_user mem_sdk self k (((\<lambda>v. snd (delete_user mem_sdk self k v)) ^^ n) ?w1))
          = Inr False" for n
    using repeated_delete_absent [OF c gone, of n] by (simp add: delete_user_mem [OF c])
  with u len show ?thesis by (simp add: delete_user_mem [OF c])
qed

text \<open>Deleting \<^verbatim>\<open>u2\<close> from the six users: true, one record less, then false.\<close>

theorem delete_user_true_once_witness:
  "collection mongo_facade = Some MongoStore \<and>
   distinct (map doc_key (users six_users MongoStore)) \<and>
   fst (delete_user mem_sdk mongo_facade ''u2'' six_users) = Inr True \<and>
   length (users six_users MongoStore)
     - length (users (snd (delete_user mem_sdk mongo_facade ''u2'' six_users)) MongoStore) = 1 \<and>
   fst (delete_user mem_sdk mongo_facade ''u2''
          (snd (delete_user mem_sdk mongo_facade ''u2'' six_users))) = Inr False"
proof -
  have k: "Some (PStr ''u2'') \<in> set (map doc_key (users six_users MongoStore))"
    by (simp add: six_users_def six_docs_def user_doc_def doc_key_def)
  from delete_user_true_once [OF mongo_facade_collection six_users_distinct, of "''u2''"]
  obtain w1 where
    d: "delete_user mem_sdk mongo_facade ''u2'' six_users =
          (Inr (Some (PStr ''u2'') \<in> set (map doc_key (users six_users MongoStore))), w1)"
    and l: "length (users six_users MongoStore) - length (users w1 MongoStore) =
      (if Some (PStr ''u2'') \<in> set (map doc_key (users six_users MongoStore)) then 1 else 0)"
    and a: "\<forall>n. fst (delete_user mem_sdk mongo_facade ''u2''
               (((\<lambda>v. snd (delete_user mem_sdk mongo_facade ''u2'' v)) ^^ n) w1)) = Inr False"
    by (elim exE conjE) (rule that; assumption)
  from a have "fst (delete_user mem_sdk mongo_facade ''u2''
               (((\<lambda>v. snd (delete_user mem_sdk mongo_facade ''u2'' v)) ^^ 0) w1)) = Inr False"
    by (rule spec)
  then have a0: "fst (delete_user mem_sdk mongo_facade ''u2'' w1) = Inr False" by simp
  from d k l a0 mongo_facade_collection six_users_distinct show ?thesis by simp
qed

text \<open>
  C8, on the reference backend. \<^verbatim>\<open>get_user_by_id\<close> returns a value and no exception,
  and changes no collection. The value is \<^verbatim>\<open>None\<close> exactly when no stored record has
  the key; otherwise it is a stored record with that key. After \<^verbatim>\<open>delete_user\<close> of the
  key, on a collection with distinct keys, it is \<^verbatim>\<open>None\<close>.
\<close>

theorem get_user_by_id_absent_is_none:
  assumes c: "collection self = Some s"
  shows "\<exists>r w1. get_user_by_id mem_sdk self k w = (Inr r, w1) \<and> users w1 = users w \<and>
    (r = None \<longleftrightarrow> Some (PStr k) \<notin> set (map doc_key (users w s))) \<and>
    (\<forall>d. r = Some d \<longrightarrow> d \<in> set (users w s) \<and> d ''_id'' = Some (PStr k)) \<and>
    (distinct (map doc_key (users w s)) \<longrightarrow>
       fst (get_user_by_id mem_sdk self k (snd (delete_user mem_sdk self k w))) = Inr None)"
proof -
  have g: "get_user_by_id mem_sdk self k v =
      (Inr (List.find (\<lambda>d. doc_key d = Some (PStr k)) (users v s)), logged (CallFindOne s k) v)" for v
    using c by (simp add: get_user_by_id_def on_collection_def mem_sdk_def mem_find_one_def)
  have some: "d \<in> set (users w s) \<and> d ''_id'' = Some (PStr k)"
    if "List.find (\<lambda>d. doc_key d = Some (PStr k)) (users w s) = Some d" for d
    using that by (auto simp: find_Some_iff doc_key_def)
  have del: "fst (get_user_by_id mem_sdk self k (snd (delete_user mem_sdk self k w))) = Inr None"
    if d: "distinct (map doc_key (users w s))"
  proof -
    have "Some (PStr k) \<notin> set (map doc_key (filter (\<lambda>d. doc_key d \<noteq> Some (PStr k)) (users w s)))"
      by auto
    then show ?thesis
      using delete_first_distinct [OF d, of "Some (PStr k)"]
      by (simp add: g delete_user_mem [OF c] put_users_def logged_def find_key)
  qed
  from some del show ?thesis
    by (simp add: g logged_def find_key)
qed

text \<open>
  Among the six users: \<^verbatim>\<open>u2\<close> is found, \<^verbatim>\<open>u9\<close> was never inserted, and \<^verbatim>\<open>u2\<close> is
  gone after it was deleted.
\<close>

theorem get_user_by_id_absent_is_none_witness:
  "collection mongo_facade = Some MongoStore \<and>
   distinct (map doc_key (users six_users MongoStore)) \<and>
   (\<exists>d. fst (get_user_by_id mem_sdk mongo_facade ''u2'' six_users) = Inr (Some d) \<and>
        d ''_id'' = Some (PStr ''u2'')) \<and>
   fst (get_user_by_id mem_sdk mongo_facade ''u9'' six_users) = Inr None \<and>
   fst (get_user_by_id mem_sdk mongo_facade ''u2''
          (snd (delete_user mem_sdk mongo_facade ''u2'' six_users))) = Inr None"
proof -
  have k2: "Some (PStr ''u2'') \<in> set (map doc_key (users six_users MongoStore))"
    and k9: "Some (PStr ''u9'') \<notin> set (map doc_key (users six_users MongoStore))"
    by (simp_all add: six_users_def six_docs_def user_doc_def doc_key_def)
  from get_user_by_id_absent_is_none [OF mongo_facade_collection, of "''u2''" six_users]
  obtain r w1 where
    g: "get_user_by_id mem_sdk mongo_facade ''u2'' six_users = (Inr r, w1)"
    and n: "r = None \<longleftrightarrow> Some (PStr ''u2'') \<notin> set (map doc_key (users six_users MongoStore))"
    and s: "\<forall>d. r = Some d \<longrightarrow> d \<in> set (users six_users MongoStore) \<and> d ''_id'' = Some (PStr ''u2'')"
    and del: "distinct (map doc_key (users six_users MongoStore)) \<longrightarrow>
       fst (get_user_by_id mem_sdk mongo_facade ''u2''
              (snd (delete_user mem_sdk mongo_facade ''u2'' six_users))) = Inr None"
    by (elim exE conjE) (rule that; assumption)
  from n k2 obtain d where rd: "r = Some d" by (cases r) simp_all
  with s have "d ''_id'' = Some (PStr ''u2'')" by simp
  with g rd have p1: "\<exists>d. fst (get_user_by_id mem_sdk mongo_facade ''u2'' six_users) = Inr (Some d) \<and>
        d ''_id'' = Some (PStr ''u2'')"
    by simp
  from del six_users_distinct have p3: "fst (get_user_by_id mem_sdk mongo_facade ''u2''
          (snd (delete_user mem_sdk mongo_facade ''u2'' six_users))) = Inr None"
    by simp
  from get_user_by_id_absent_is_none [OF mongo_facade_collection, of "''u9''" six_users]
  obtain r' w2 where
    g': "get_user_by_id mem_sdk mongo_facade ''u9'' six_users = (Inr r', w2)"
    and n': "r' = None \<longleftrightarrow> Some (PStr ''u9'') \<notin> set (map doc_key (users six_users MongoStore))"
    by (elim exE conjE) (rule that; assumption)
  from g' n' k9 have p2: "fst (get_user_by_id mem_sdk mongo_facade ''u9'' six_users) = Inr None"
    by simp
  from p1 p2 p3 mongo_facade_collection six_users_distinct show ?thesis by (intro conjI)
qed

end
